theory Spec2Isabelle
  imports Main "HOL-Library.AList"
begin

section \<open>JavaScript values and strings\<close>

text \<open>
  The program is \<^verbatim>\<open>src/slack-send.js\<close>: one asynchronous function \<^verbatim>\<open>slackSend(core)\<close>.
  A JavaScript string is a \<^typ>\<open>string\<close>: a list of code units below 256, each the
  character of that code point. \<^verbatim>\<open>trim\<close> below strips every white space character and
  line terminator of JavaScript that such a string can hold; \<^verbatim>\<open>toUpperCase\<close> maps the
  ASCII letters. Output written with \<^verbatim>\<open>console.log\<close> and \<^verbatim>\<open>console.error\<close> is not part
  of the model.

  A JSON value as \<^verbatim>\<open>JSON.parse\<close> returns it. The type of numbers is a parameter \<open>'n\<close>:
  the program only tests a number for truthiness and converts it to a string, and both
  operations are taken from the record \<open>number_ops\<close>. An object is the list of its own
  enumerable properties in the order \<^verbatim>\<open>Object.keys\<close> lists them, without duplicate keys
  (\<open>define_property\<close> below keeps both).
\<close>

datatype 'n json =
    JNull
  | JBool bool
  | JNum 'n
  | JStr string
  | JArr "'n json list"
  | JObj "(string \<times> 'n json) list"

type_synonym 'n obj = "(string \<times> 'n json) list"

record 'n number_ops =
  number_is_zero :: "'n \<Rightarrow> bool"
  number_to_string :: "'n \<Rightarrow> string"

text \<open>Every value thrown in the program is an \<^verbatim>\<open>Error\<close> carrying a message.\<close>

datatype error = Error string

text \<open>The decimal numeral of an array index, as \<^verbatim>\<open>Object.keys\<close> produces it.\<close>

definition digit_char :: "nat \<Rightarrow> char" where
  "digit_char d = ''0123456789'' ! d"

fun nat_to_string :: "nat \<Rightarrow> string" where
  "nat_to_string n =
     (if n < 10 then [digit_char n] else nat_to_string (n div 10) @ [digit_char (n mod 10)])"

declare nat_to_string.simps [simp del]

text \<open>\<^verbatim>\<open>Array.prototype.join\<close> on a list of strings.\<close>

fun join :: "string \<Rightarrow> string list \<Rightarrow> string" where
  "join sep [] = []"
| "join sep [s] = s"
| "join sep (s # t # ss) = s @ sep @ join sep (t # ss)"

text \<open>
  Truthiness of a parsed JSON value: \<^verbatim>\<open>null\<close>, \<^verbatim>\<open>false\<close>, \<^verbatim>\<open>0\<close> and the empty string
  are falsy, every array and object is truthy.
\<close>

fun truthy :: "'n number_ops \<Rightarrow> 'n json \<Rightarrow> bool" where
  "truthy ops JNull = False"
| "truthy ops (JBool b) = b"
| "truthy ops (JNum n) = (\<not> number_is_zero ops n)"
| "truthy ops (JStr s) = (s \<noteq> [])"
| "truthy ops (JArr xs) = True"
| "truthy ops (JObj kvs) = True"

text \<open>
  The string conversion of a template literal \<^verbatim>\<open>`${v}`\<close>: an array is joined with commas,
  where \<^verbatim>\<open>null\<close> elements give the empty string; an object gives \<^verbatim>\<open>[object Object]\<close>.
\<close>

fun to_string :: "'n number_ops \<Rightarrow> 'n json \<Rightarrow> string" where
  "to_string ops JNull = ''null''"
| "to_string ops (JBool b) = (if b then ''true'' else ''false'')"
| "to_string ops (JNum n) = number_to_string ops n"
| "to_string ops (JStr s) = s"
| "to_string ops (JArr xs) =
     join '','' (map (\<lambda>x. if x = JNull then [] else to_string ops x) xs)"
| "to_string ops (JObj kvs) = ''[object Object]''"

text \<open>
  The own enumerable properties of a value, as \<^verbatim>\<open>Object.keys\<close> and the spread
  \<^verbatim>\<open>{...v}\<close> see them: the entries of an object, the indexed elements of an array, the
  indexed characters of a string, nothing for a number or a boolean.
\<close>

definition indexed :: "'a list \<Rightarrow> (string \<times> 'a) list" where
  "indexed xs = zip (map nat_to_string [0..<length xs]) xs"

fun own_entries :: "'n json \<Rightarrow> 'n obj" where
  "own_entries (JObj kvs) = kvs"
| "own_entries (JArr xs) = indexed xs"
| "own_entries (JStr s) = indexed (map (\<lambda>c. JStr [c]) s)"
| "own_entries v = []"

text \<open>
  The keys of an object. A key is an array index when it is the decimal numeral, without
  leading zeros, of a number below \<open>2^32 - 1\<close>. An object lists its array indices first,
  in ascending order, and then its other keys in the order in which they were created.
  \<open>define_property\<close> is the definition of an own property, as an object literal and the
  spread \<^verbatim>\<open>{...v}\<close> do it: the value of a key that is there is replaced where it stands, a
  new key goes to its place in that order.
\<close>

definition digit_value :: "char \<Rightarrow> int option" where
  "digit_value c = map_of (zip ''0123456789'' [0, 1, 2, 3, 4, 5, 6, 7, 8, 9]) c"

fun canonical_numeral :: "string \<Rightarrow> bool" where
  "canonical_numeral [] = False"
| "canonical_numeral [c] = (digit_value c \<noteq> None)"
| "canonical_numeral (c # d # ds) =
     (c \<noteq> CHR ''0'' \<and> list_all (\<lambda>x. digit_value x \<noteq> None) (c # d # ds))"

fun parse_digits :: "int \<Rightarrow> string \<Rightarrow> int" where
  "parse_digits acc [] = acc"
| "parse_digits acc (c # cs) =
     parse_digits (10 * acc + (case digit_value c of None \<Rightarrow> 0 | Some d \<Rightarrow> d)) cs"

definition array_index :: "string \<Rightarrow> int option" where
  "array_index key =
     (if canonical_numeral key \<and> parse_digits 0 key < 4294967295
      then Some (parse_digits 0 key) else None)"

fun insert_index :: "int \<Rightarrow> string \<times> 'n json \<Rightarrow> 'n obj \<Rightarrow> 'n obj" where
  "insert_index n kv [] = [kv]"
| "insert_index n kv (e # es) =
     (case array_index (fst e) of
        None \<Rightarrow> kv # e # es
      | Some m \<Rightarrow> if m < n then e # insert_index n kv es else kv # e # es)"

definition define_property :: "string \<Rightarrow> 'n json \<Rightarrow> 'n obj \<Rightarrow> 'n obj" where
  "define_property key v obj =
     (if key \<in> set (map fst obj) then AList.update key v obj
      else (case array_index key of
              None \<Rightarrow> obj @ [(key, v)]
            | Some n \<Rightarrow> insert_index n (key, v) obj))"

text \<open>
  An object that starts as \<^verbatim>\<open>{}\<close> and is assigned to: its own properties, and whether its
  prototype has become \<^verbatim>\<open>null\<close>. \<open>assign\<close> is the assignment \<^verbatim>\<open>obj[key] = v\<close>. It
  defines the property, but for the key \<^verbatim>\<open>__proto__\<close> while the object inherits from
  \<^verbatim>\<open>Object.prototype\<close>: that key is then the accessor of the prototype, whose setter
  makes \<^verbatim>\<open>null\<close> the prototype (the accessor is not inherited any more from then on),
  makes an object or array the prototype (an empty one here, which inherits the accessor
  itself) and ignores every other value; in no case does it define a property.
\<close>

record 'n object =
  properties :: "'n obj"
  null_prototype :: bool

definition empty_object :: "'n object" where
  "empty_object = \<lparr>properties = [], null_prototype = False\<rparr>"

definition assign :: "string \<Rightarrow> 'n json \<Rightarrow> 'n object \<Rightarrow> 'n object" where
  "assign key v obj =
     (if key = ''__proto__'' \<and> \<not> null_prototype obj
      then (if v = JNull then obj\<lparr>null_prototype := True\<rparr> else obj)
      else obj\<lparr>properties := define_property key v (properties obj)\<rparr>)"

section \<open>The flat library\<close>

text \<open>
  \<^verbatim>\<open>flatten\<close> of the npm package \<^verbatim>\<open>flat\<close>, a dependency that line 4 imports, called with
  no options (delimiter \<^verbatim>\<open>.\<close>, no depth limit, arrays flattened too). The model follows
  the function as the package publishes it; a JSON value is never a buffer, so that test
  is left out. Its inner function, with \<open>out\<close> the output object:
  \<^verbatim>\<open>
  function step (object, prev) {
    Object.keys(object).forEach(function (key) {
      const value = object[key]
      const isobject = (type === '[object Object]' || type === '[object Array]')
      const newKey = prev ? prev + delimiter + key : key
      if (isobject && Object.keys(value).length) return step(value, newKey)
      output[newKey] = value
    })
  }
  \<close>
  \<open>step_value\<close> is the body of the loop for one property, \<open>step_props\<close> the loop over
  the properties of an object and \<open>step_elems\<close> the loop over the elements of an array
  from index \<open>i\<close> on. An assignment \<^verbatim>\<open>output[k] = v\<close> is \<open>assign\<close>.
\<close>

definition new_key :: "string \<Rightarrow> string \<Rightarrow> string" where
  "new_key prev key = (if prev \<noteq> [] then prev @ ''.'' @ key else key)"

fun step_value :: "string \<Rightarrow> 'n json \<Rightarrow> 'n object \<Rightarrow> 'n object"
  and step_props :: "string \<Rightarrow> (string \<times> 'n json) list \<Rightarrow> 'n object \<Rightarrow> 'n object"
  and step_elems :: "string \<Rightarrow> nat \<Rightarrow> 'n json list \<Rightarrow> 'n object \<Rightarrow> 'n object" where
  "step_value k (JObj kvs) out = (if kvs \<noteq> [] then step_props k kvs out else assign k (JObj kvs) out)"
| "step_value k (JArr xs) out = (if xs \<noteq> [] then step_elems k 0 xs out else assign k (JArr xs) out)"
| "step_value k JNull out = assign k JNull out"
| "step_value k (JBool b) out = assign k (JBool b) out"
| "step_value k (JNum n) out = assign k (JNum n) out"
| "step_value k (JStr s) out = assign k (JStr s) out"
| "step_props prev [] out = out"
| "step_props prev (kv # kvs) out =
     step_props prev kvs (step_value (new_key prev (fst kv)) (snd kv) out)"
| "step_elems prev i [] out = out"
| "step_elems prev i (x # xs) out =
     step_elems prev (Suc i) xs (step_value (new_key prev (nat_to_string i)) x out)"

text \<open>
  \<^verbatim>\<open>flatten(target)\<close> runs \<^verbatim>\<open>step(target)\<close> with no prefix on \<^verbatim>\<open>const output = {}\<close> and
  returns \<^verbatim>\<open>output\<close>; the caller reads its own properties only. \<^verbatim>\<open>Object.keys(null)\<close>
  throws a \<^verbatim>\<open>TypeError\<close>; a string has its characters as properties, a number or a boolean
  none.
\<close>

definition flatten :: "'n json \<Rightarrow> error + 'n obj" where
  "flatten target =
     (case target of
        JNull \<Rightarrow> Inl (Error ''Cannot convert undefined or null to object'')
      | JObj kvs \<Rightarrow> Inr (properties (step_props [] kvs empty_object))
      | JArr xs \<Rightarrow> Inr (properties (step_elems [] 0 xs empty_object))
      | _ \<Rightarrow> Inr (properties (step_props [] (own_entries target) empty_object)))"

section \<open>The flattened form, as the specification words it\<close>













section \<open>String operations\<close>

text \<open>\<^verbatim>\<open>String.prototype.split\<close> with a one-character separator: \<^verbatim>\<open>"".split(",")\<close> is \<^verbatim>\<open>[""]\<close>.\<close>

fun split_on :: "char \<Rightarrow> string \<Rightarrow> string list" where
  "split_on d [] = [[]]"
| "split_on d (c # cs) =
     (if c = d then [] # split_on d cs
      else (case split_on d cs of [] \<Rightarrow> [[c]] | x # xs \<Rightarrow> (c # x) # xs))"

text \<open>
  \<^verbatim>\<open>String.prototype.trim\<close>. The white space and line terminators below 256 are the tab,
  the line feed, the vertical tab, the form feed, the carriage return, the space and the
  no-break space.
\<close>

definition is_space :: "char \<Rightarrow> bool" where
  "is_space c = (c \<in> set [CHR 0x09, CHR 0x0A, CHR 0x0B, CHR 0x0C, CHR 0x0D, CHR 0x20, CHR 0xA0])"

definition trim :: "string \<Rightarrow> string" where
  "trim s = rev (dropWhile is_space (rev (dropWhile is_space s)))"

text \<open>\<^verbatim>\<open>String.prototype.toUpperCase\<close>, for the ASCII letters.\<close>

definition upper_char :: "char \<Rightarrow> char" where
  "upper_char c =
     (case map_of (zip ''abcdefghijklmnopqrstuvwxyz'' ''ABCDEFGHIJKLMNOPQRSTUVWXYZ'') c of
        None \<Rightarrow> c
      | Some u \<Rightarrow> u)"

definition toUpperCase :: "string \<Rightarrow> string" where
  "toUpperCase s = map upper_char s"

text \<open>
  \<^verbatim>\<open>payload.replaceAll('${{', '{{')\<close>: every occurrence of the three characters, left to
  right. Two occurrences cannot overlap, since only the first character is a dollar sign.
\<close>

fun replaceAll_marker :: "string \<Rightarrow> string" where
  "replaceAll_marker (a # b # c # cs) =
     (if a = CHR ''$'' \<and> b = CHR ''{'' \<and> c = CHR ''{''
      then CHR ''{'' # CHR ''{'' # replaceAll_marker cs
      else a # replaceAll_marker (b # c # cs))"
| "replaceAll_marker cs = cs"

text \<open>\<^verbatim>\<open>a || b\<close> for an environment variable \<open>a\<close> that may be unset and a string \<open>b\<close>.\<close>

definition or_else :: "string option \<Rightarrow> string \<Rightarrow> string" where
  "or_else a b = (case a of None \<Rightarrow> b | Some s \<Rightarrow> if s \<noteq> [] then s else b)"

section \<open>The environment of an invocation\<close>

text \<open>
  What the Slack client resolves with: \<^verbatim>\<open>ok\<close>, \<^verbatim>\<open>ts\<close>, \<^verbatim>\<open>thread_ts\<close> (may be missing) and
  \<^verbatim>\<open>channel\<close>.
\<close>

record web_response =
  resp_ok :: bool
  resp_ts :: string
  resp_thread_ts :: "string option"
  resp_channel :: string

text \<open>
  The value \<^verbatim>\<open>axios.post\<close> rejects with: \<^verbatim>\<open>err.response\<close> (missing when no HTTP response
  was received), of which the program reads \<^verbatim>\<open>data\<close>, and \<^verbatim>\<open>err.message\<close>.
\<close>

record 'n http_response =
  response_data :: "'n json"

record 'n axios_error =
  err_response :: "'n http_response option"
  err_message :: string

text \<open>
  \<^verbatim>\<open>axiosOpts\<close>: the proxy URL of the tunnelling agent when one is configured, and whether
  \<^verbatim>\<open>proxy\<close> was set to \<^verbatim>\<open>false\<close>.
\<close>

record axios_opts =
  httpsAgent :: "string option"
  proxy_false :: bool

text \<open>
  The process environment and the collaborators of \<^verbatim>\<open>slackSend\<close> (Node, the npm packages
  and the clients of GitHub and Slack), each taken as given:
  \<^item> \<open>fs_readFile\<close>, \<open>markup_up\<close> and \<open>JSON_parse\<close> return \<open>None\<close> where the library throws
    (each call stands in a \<^verbatim>\<open>try\<close> whose handler drops the thrown value);
    \<open>markup_up\<close> renders against the fixed context \<^verbatim>\<open>{ github: github.context, env: process.env }\<close>;
  \<^item> \<open>chat_update i req\<close> and \<open>chat_postMessage i req\<close> are what the \<open>i\<close>-th call issued
    settles with: \<open>Inl\<close> a rejection, \<open>Inr\<close> the response (\<open>None\<close> for \<^verbatim>\<open>undefined\<close>);
    \<open>latency i\<close> is the time at which that call settles;
  \<^item> \<open>parseURL_scheme\<close> is \<^verbatim>\<open>parseURL(u).scheme\<close>, \<open>None\<close> when \<^verbatim>\<open>parseURL\<close> returns \<^verbatim>\<open>null\<close>;
  \<^item> \<open>axios_post\<close> returns the rejection, \<open>None\<close> when the request succeeds;
  \<^item> \<open>toTimeString\<close> is \<^verbatim>\<open>(new Date()).toTimeString()\<close>.
\<close>

record 'n world =
  env_SLACK_BOT_TOKEN :: "string option"
  env_SLACK_WEBHOOK_URL :: "string option"
  env_SLACK_WEBHOOK_TYPE :: "string option"
  env_HTTPS_PROXY :: "string option"
  env_https_proxy :: "string option"
  numbers :: "'n number_ops"
  path_resolve :: "string \<Rightarrow> string"
  fs_readFile :: "string \<Rightarrow> string option"
  markup_up :: "string \<Rightarrow> string option"
  JSON_parse :: "string \<Rightarrow> 'n json option"
  context_payload :: "'n json"
  chat_update :: "nat \<Rightarrow> 'n obj \<Rightarrow> error + web_response option"
  chat_postMessage :: "nat \<Rightarrow> 'n obj \<Rightarrow> error + web_response option"
  latency :: "nat \<Rightarrow> nat"
  parseURL_scheme :: "string \<Rightarrow> string option"
  axios_post :: "string \<Rightarrow> 'n json \<Rightarrow> axios_opts \<Rightarrow> 'n axios_error option"
  toTimeString :: string

text \<open>
  The argument \<^verbatim>\<open>core\<close>: what \<^verbatim>\<open>core.getInput\<close> returns for each input (the empty string
  for an input that is not set) and what \<^verbatim>\<open>core.getBooleanInput\<close> does for
  \<^verbatim>\<open>payload-file-path-parsed\<close> (\<open>Inl\<close> when it throws).
\<close>

record core =
  input_payload :: string
  input_payload_file_path :: string
  input_payload_file_path_parsed :: "error + bool"
  input_slack_message :: string
  input_channel_id :: string
  input_update_ts :: string

text \<open>
  What an invocation does, in order: the calls of its collaborators and of
  \<^verbatim>\<open>core.setOutput\<close> and \<^verbatim>\<open>core.setFailed\<close>.
\<close>

datatype 'n failure = FailError error | FailMessage string | FailData "'n json"

datatype 'n event =
    ReadFile string
  | MarkupUp string
  | JsonParse string
  | CreateWebClient string string
  | ChatUpdate "'n obj"
  | ChatPostMessage "'n obj"
  | AxiosPost string "'n json" axios_opts
  | SetOutput string string
  | SetFailed "'n failure"

text \<open>
  The events that send a message, and the events that report to the caller.
\<close>

fun is_delivery :: "'n event \<Rightarrow> bool" where
  "is_delivery (ChatUpdate args) = True"
| "is_delivery (ChatPostMessage args) = True"
| "is_delivery (AxiosPost url body opts) = True"
| "is_delivery e = False"

fun is_report :: "'n event \<Rightarrow> bool" where
  "is_report (SetOutput name v) = True"
| "is_report (SetFailed f) = True"
| "is_report e = False"

text \<open>How a block of the function ends: at its end, by \<^verbatim>\<open>return\<close>, or by \<^verbatim>\<open>throw\<close>.\<close>

datatype completion = Normal | Returned | Thrown error

text \<open>The errors of the program, under the names the specification gives them.\<close>

definition ConfigurationError :: error where
  "ConfigurationError = Error ''Need to provide at least one botToken or webhookUrl''"

definition PayloadFileError :: "string \<Rightarrow> error" where
  "PayloadFileError file =
     Error (''The payload-file-path may be incorrect. Failed to load the file: '' @ file)"

definition InvalidPayloadError :: error where
  "InvalidPayloadError = Error ''Need to provide valid JSON payload''"

definition EmptyChannelError :: error where
  "EmptyChannelError =
     Error ''Channel ID is required to run this action. An empty one has been provided''"

definition EmptyContentError :: error where
  "EmptyContentError =
     Error ''Missing message content, please input a valid payload or message to send. No Message has been send.''"

definition SLACK_WEBHOOK_TYPES_WORKFLOW_TRIGGER :: string where
  "SLACK_WEBHOOK_TYPES_WORKFLOW_TRIGGER = ''WORKFLOW_TRIGGER''"

definition SLACK_WEBHOOK_TYPES_INCOMING_WEBHOOK :: string where
  "SLACK_WEBHOOK_TYPES_INCOMING_WEBHOOK = ''INCOMING_WEBHOOK''"

section \<open>slackSend\<close>

subsection \<open>Payload resolution (lines 32 to 65)\<close>

text \<open>
  The file is read and, when \<open>parsed\<close> holds, rewritten and rendered. Whatever is thrown
  inside this \<^verbatim>\<open>try\<close> is replaced by the error that names the path.
\<close>

definition load_payload_file ::
  "'n world \<Rightarrow> string \<Rightarrow> bool \<Rightarrow> 'n event list \<times> (error + string)" where
  "load_payload_file w payloadFilePath parsed =
     (let file = path_resolve w payloadFilePath in
      case fs_readFile w file of
        None \<Rightarrow> ([ReadFile file], Inl (PayloadFileError payloadFilePath))
      | Some text \<Rightarrow>
          if parsed then
            (let payloadString = replaceAll_marker text in
             case markup_up w payloadString of
               None \<Rightarrow> ([ReadFile file, MarkupUp payloadString],
                         Inl (PayloadFileError payloadFilePath))
             | Some rendered \<Rightarrow> ([ReadFile file, MarkupUp payloadString], Inr rendered))
          else ([ReadFile file], Inr text))"

text \<open>
  The resolved payload is \<open>None\<close> while the variable \<^verbatim>\<open>payload\<close> still holds the empty
  string, and the parsed value otherwise.
\<close>

definition resolve_payload ::
  "'n world \<Rightarrow> core \<Rightarrow> bool \<Rightarrow> 'n event list \<times> (error + 'n json option)" where
  "resolve_payload w c parsed =
     (let payloadFilePath = input_payload_file_path c in
      case (if payloadFilePath \<noteq> [] \<and> input_payload c = []
            then load_payload_file w payloadFilePath parsed
            else ([], Inr (input_payload c))) of
        (evs, Inl e) \<Rightarrow> (evs, Inl e)
      | (evs, Inr text) \<Rightarrow>
          if text \<noteq> [] then
            (case JSON_parse w text of
               None \<Rightarrow> (evs @ [JsonParse text], Inl InvalidPayloadError)
             | Some v \<Rightarrow> (evs @ [JsonParse text], Inr (Some v)))
          else (evs, Inr None))"

text \<open>The test \<^verbatim>\<open>if (payload)\<close> on the resolved payload.\<close>

definition payload_truthy :: "'n world \<Rightarrow> 'n json option \<Rightarrow> bool" where
  "payload_truthy w payload =
     (case payload of None \<Rightarrow> False | Some v \<Rightarrow> truthy (numbers w) v)"

subsection \<open>The token branch (lines 67 to 102)\<close>

text \<open>
  An object literal: the properties are defined from left to right, a later one of the
  same name replacing the value of the earlier one.
\<close>

definition object_literal :: "(string \<times> 'n json) list \<Rightarrow> 'n obj" where
  "object_literal props = foldl (\<lambda>obj kv. define_property (fst kv) (snd kv) obj) [] props"

text \<open>The properties \<^verbatim>\<open>...(payload || {})\<close> spreads.\<close>

definition payload_fields :: "'n world \<Rightarrow> 'n json option \<Rightarrow> (string \<times> 'n json) list" where
  "payload_fields w payload =
     (case payload of
        None \<Rightarrow> []
      | Some v \<Rightarrow> if truthy (numbers w) v then own_entries v else [])"

text \<open>
  The argument of \<^verbatim>\<open>web.chat.update\<close> (\<open>ts\<close> non-empty) or \<^verbatim>\<open>web.chat.postMessage\<close> for
  one entry of the channel list.
\<close>

definition chat_arguments ::
  "'n world \<Rightarrow> string \<Rightarrow> string \<Rightarrow> 'n json option \<Rightarrow> string \<Rightarrow> 'n obj" where
  "chat_arguments w ts message payload channelId =
     object_literal
       ((if ts \<noteq> [] then [(''ts'', JStr ts)] else []) @
        [(''channel'', JStr (trim channelId)), (''text'', JStr message)] @
        payload_fields w payload)"

definition chat_call :: "string \<Rightarrow> 'n obj \<Rightarrow> 'n event" where
  "chat_call ts args = (if ts \<noteq> [] then ChatUpdate args else ChatPostMessage args)"

definition chat_result ::
  "'n world \<Rightarrow> string \<Rightarrow> nat \<times> 'n obj \<Rightarrow> error + web_response option" where
  "chat_result w ts ia =
     (if ts \<noteq> [] then chat_update w (fst ia) (snd ia) else chat_postMessage w (fst ia) (snd ia))"

text \<open>
  \<^verbatim>\<open>Promise.all\<close> over the calls: every call is issued when \<^verbatim>\<open>map\<close> runs its callback,
  in the order of the list; the calls then settle in the order of their latencies (calls
  of equal latency in the order they were issued). The first rejection rejects
  \<^verbatim>\<open>Promise.all\<close>; each call that resolves assigns its response to \<^verbatim>\<open>webResponse\<close>.
\<close>

definition settle_order :: "'n world \<Rightarrow> 'a list \<Rightarrow> 'a list" where
  "settle_order w results =
     map snd (sort_key (\<lambda>ir. latency w (fst ir)) (enumerate 0 results))"

fun first_rejection :: "(error + 'a) list \<Rightarrow> error option" where
  "first_rejection [] = None"
| "first_rejection (Inl e # rs) = Some e"
| "first_rejection (Inr x # rs) = first_rejection rs"

definition last_response :: "(error + web_response option) list \<Rightarrow> web_response option" where
  "last_response settled =
     foldl (\<lambda>webResponse r. case r of Inl e \<Rightarrow> webResponse | Inr resp \<Rightarrow> resp) None settled"

text \<open>Lines 91 to 98: the outputs of the recorded response.\<close>

definition response_outputs :: "web_response option \<Rightarrow> 'n event list" where
  "response_outputs webResponse =
     (case webResponse of
        None \<Rightarrow> []
      | Some r \<Rightarrow>
          if resp_ok r then
            [SetOutput ''ts'' (resp_ts r),
             SetOutput ''thread_ts''
               (case resp_thread_ts r of
                  None \<Rightarrow> resp_ts r
                | Some t \<Rightarrow> if t \<noteq> [] then t else resp_ts r),
             SetOutput ''channel_id'' (resp_channel r)]
          else [])"

text \<open>
  Line 80: the arguments of the calls, one for each entry of \<^verbatim>\<open>channelIds.split(',')\<close>, and
  what the calls settle with, in the order in which they settle.
\<close>

definition channel_requests :: "'n world \<Rightarrow> core \<Rightarrow> 'n json option \<Rightarrow> 'n obj list" where
  "channel_requests w c payload =
     map (chat_arguments w (input_update_ts c) (input_slack_message c) payload)
       (split_on CHR '','' (input_channel_id c))"

definition settled_results ::
  "'n world \<Rightarrow> core \<Rightarrow> 'n json option \<Rightarrow> (error + web_response option) list" where
  "settled_results w c payload =
     settle_order w
       (map (chat_result w (input_update_ts c)) (enumerate 0 (channel_requests w c payload)))"

text \<open>
  Modelled from the spec: the module \<^verbatim>\<open>./web-client\<close> that exports \<^verbatim>\<open>createWebClient\<close> is not
  among the sources. The specification (section 4.5) has an authenticated client
  constructed once per invocation from the token and, if present, an HTTPS proxy agent;
  line 71 passes it the token and the proxy of the environment. The construction is one
  event and does not throw.
\<close>

definition web_client :: "'n world \<Rightarrow> string \<Rightarrow> 'n event" where
  "web_client w botToken =
     CreateWebClient botToken (or_else (env_HTTPS_PROXY w) (or_else (env_https_proxy w) []))"

definition token_branch ::
  "'n world \<Rightarrow> core \<Rightarrow> string \<Rightarrow> 'n json option \<Rightarrow> 'n event list \<times> completion" where
  "token_branch w c botToken payload =
     (let message = input_slack_message c;
          channelIds = input_channel_id c;
          web = [web_client w botToken]
      in
      if length channelIds \<le> 0 then (web, Thrown EmptyChannelError)
      else if length message > 0 \<or> payload_truthy w payload then
        (let ts = input_update_ts c;
             calls = map (chat_call ts) (channel_requests w c payload);
             settled = settled_results w c payload
         in
         case first_rejection settled of
           Some e \<Rightarrow> (web @ calls, Thrown e)
         | None \<Rightarrow> (web @ calls @ response_outputs (last_response settled), Normal))
      else (web, Thrown EmptyContentError))"

subsection \<open>The webhook branch (lines 103 to 156)\<close>

text \<open>
  Lines 111 to 122: the payload is flattened and every value of the flat object is
  replaced by its string.
\<close>

definition stringify_values :: "'n world \<Rightarrow> 'n obj \<Rightarrow> 'n obj" where
  "stringify_values w flatPayload =
     map (\<lambda>kv. (fst kv, JStr (to_string (numbers w) (snd kv)))) flatPayload"

definition shape_payload :: "'n world \<Rightarrow> string \<Rightarrow> 'n json \<Rightarrow> error + 'n json" where
  "shape_payload w webhookType payload =
     (if webhookType = SLACK_WEBHOOK_TYPES_WORKFLOW_TRIGGER then
        (case flatten payload of
           Inl e \<Rightarrow> Inl e
         | Inr flatPayload \<Rightarrow> Inr (JObj (stringify_values w flatPayload)))
      else Inr payload)"

text \<open>
  Lines 124 to 138. \<^verbatim>\<open>parseURL(u).scheme\<close> throws when \<^verbatim>\<open>parseURL\<close> returns \<^verbatim>\<open>null\<close>; the
  handler logs and goes on with the options as they are, which are still empty then.
\<close>

definition no_axios_opts :: axios_opts where
  "no_axios_opts = \<lparr>httpsAgent = None, proxy_false = False\<rparr>"

definition configure_axios :: "'n world \<Rightarrow> string \<Rightarrow> axios_opts" where
  "configure_axios w webhookUrl =
     (case parseURL_scheme w webhookUrl of
        None \<Rightarrow> no_axios_opts
      | Some scheme \<Rightarrow>
          if scheme = ''https'' then
            (let httpsProxy = or_else (env_HTTPS_PROXY w) (or_else (env_https_proxy w) []) in
             if httpsProxy \<noteq> [] then
               (case parseURL_scheme w httpsProxy of
                  None \<Rightarrow> no_axios_opts
                | Some proxyScheme \<Rightarrow>
                    if proxyScheme = ''http''
                    then \<lparr>httpsAgent = Some httpsProxy, proxy_false = True\<rparr>
                    else no_axios_opts)
             else no_axios_opts)
          else no_axios_opts)"

text \<open>
  Lines 104 to 109: without a payload, the payload of the event that triggered the
  workflow is sent.
\<close>

definition payload_or_default :: "'n world \<Rightarrow> 'n json option \<Rightarrow> 'n json" where
  "payload_or_default w payload =
     (if \<not> payload_truthy w payload then context_payload w
      else (case payload of None \<Rightarrow> context_payload w | Some v \<Rightarrow> v))"

definition webhook_branch ::
  "'n world \<Rightarrow> string \<Rightarrow> string \<Rightarrow> 'n json option \<Rightarrow> 'n event list \<times> completion" where
  "webhook_branch w webhookType webhookUrl payload0 =
     (let payload = payload_or_default w payload0 in
      case shape_payload w webhookType payload of
        Inl e \<Rightarrow> ([], Thrown e)
      | Inr body \<Rightarrow>
          (let axiosOpts = configure_axios w webhookUrl in
           case axios_post w webhookUrl body axiosOpts of
             None \<Rightarrow> ([AxiosPost webhookUrl body axiosOpts], Normal)
           | Some err \<Rightarrow>
               ([AxiosPost webhookUrl body axiosOpts,
                 SetFailed (case err_response err of
                              Some response \<Rightarrow> FailData (response_data response)
                            | None \<Rightarrow> FailMessage (err_message err))],
                Returned)))"

subsection \<open>The whole function\<close>

definition select_webhookType :: "'n world \<Rightarrow> string" where
  "select_webhookType w =
     (case env_SLACK_WEBHOOK_TYPE w of
        None \<Rightarrow> SLACK_WEBHOOK_TYPES_WORKFLOW_TRIGGER
      | Some t \<Rightarrow> if t \<noteq> [] then toUpperCase t else SLACK_WEBHOOK_TYPES_WORKFLOW_TRIGGER)"

text \<open>
  \<^verbatim>\<open>v === undefined || v.length <= 0\<close> for an environment variable, and the string of a
  variable that is set.
\<close>

definition missing :: "string option \<Rightarrow> bool" where
  "missing v = (case v of None \<Rightarrow> True | Some s \<Rightarrow> length s \<le> 0)"

definition value_of :: "string option \<Rightarrow> string" where
  "value_of v = (case v of None \<Rightarrow> [] | Some s \<Rightarrow> s)"

text \<open>
  Lines 67 and 103: the branch taken once the payload is resolved. With neither credential
  no branch is taken (line 28 excludes it).
\<close>

definition dispatch :: "'n world \<Rightarrow> core \<Rightarrow> 'n json option \<Rightarrow> 'n event list \<times> completion" where
  "dispatch w c payload =
     (if \<not> missing (env_SLACK_BOT_TOKEN w)
      then token_branch w c (value_of (env_SLACK_BOT_TOKEN w)) payload
      else if \<not> missing (env_SLACK_WEBHOOK_URL w)
      then webhook_branch w (select_webhookType w) (value_of (env_SLACK_WEBHOOK_URL w)) payload
      else ([], Normal))"

text \<open>
  The body of the outer \<^verbatim>\<open>try\<close>, and the function: the handler of the outer \<^verbatim>\<open>try\<close> calls
  \<^verbatim>\<open>core.setFailed\<close> with what was thrown; the time output is set when the body reaches
  its last two lines.
\<close>

definition slackSend_body :: "'n world \<Rightarrow> core \<Rightarrow> 'n event list \<times> completion" where
  "slackSend_body w c =
     (if missing (env_SLACK_BOT_TOKEN w) \<and> missing (env_SLACK_WEBHOOK_URL w)
      then ([], Thrown ConfigurationError)
      else
        (case input_payload_file_path_parsed c of
           Inl e \<Rightarrow> ([], Thrown e)
         | Inr payloadFilePathParsed \<Rightarrow>
             (case resolve_payload w c payloadFilePathParsed of
                (evs, Inl e) \<Rightarrow> (evs, Thrown e)
              | (evs, Inr payload) \<Rightarrow>
                  (case dispatch w c payload of
                     (evs', Normal) \<Rightarrow>
                       (evs @ evs' @ [SetOutput ''time'' (toTimeString w)], Normal)
                   | (evs', r) \<Rightarrow> (evs @ evs', r)))))"

definition slackSend :: "'n world \<Rightarrow> core \<Rightarrow> 'n event list" where
  "slackSend w c =
     (case slackSend_body w c of
        (evs, Thrown error) \<Rightarrow> evs @ [SetFailed (FailError error)]
      | (evs, r) \<Rightarrow> evs)"

section \<open>A concrete environment\<close>

text \<open>
  Natural numbers as the numbers of JSON, and an environment in which every collaborator
  succeeds: the renderer returns a text without markers as it is, the parser knows the
  texts listed, the Slack client answers \<^verbatim>\<open>ok\<close> from the channel of the request, every call
  settles at once. No credential is set.
\<close>

definition nat_numbers :: "nat number_ops" where
  "nat_numbers = \<lparr>number_is_zero = (\<lambda>n. n = 0), number_to_string = nat_to_string\<rparr>"

definition example_parse :: "string \<Rightarrow> nat json option" where
  "example_parse text =
     map_of
       [(''{\"text\":\"hi\"}'', JObj [(''text'', JStr ''hi'')]),
        (''{\"a\":{\"b\":1,\"c\":[2,3]}}'',
           JObj [(''a'', JObj [(''b'', JNum 1), (''c'', JArr [JNum 2, JNum 3])])])]
       text"

definition example_response :: "nat obj \<Rightarrow> web_response" where
  "example_response args =
     \<lparr>resp_ok = True, resp_ts = ''1700000000.000100'', resp_thread_ts = None,
      resp_channel = (case map_of args ''channel'' of Some (JStr ch) \<Rightarrow> ch | _ \<Rightarrow> [])\<rparr>"

definition example_world :: "nat world" where
  "example_world =
     \<lparr>env_SLACK_BOT_TOKEN = None,
      env_SLACK_WEBHOOK_URL = None,
      env_SLACK_WEBHOOK_TYPE = None,
      env_HTTPS_PROXY = None,
      env_https_proxy = None,
      numbers = nat_numbers,
      path_resolve = (\<lambda>p. p),
      fs_readFile = (\<lambda>file. None),
      markup_up = (\<lambda>text. Some text),
      JSON_parse = example_parse,
      context_payload = JObj [(''ref'', JStr ''main'')],
      chat_update = (\<lambda>i args. Inr (Some (example_response args))),
      chat_postMessage = (\<lambda>i args. Inr (Some (example_response args))),
      latency = (\<lambda>i. 0),
      parseURL_scheme = (\<lambda>u. if take 8 u = ''https://'' then Some ''https'' else None),
      axios_post = (\<lambda>u body opts. None),
      toTimeString = ''12:00:00 GMT+0000 (Coordinated Universal Time)''\<rparr>"

definition token_world :: "nat world" where
  "token_world = example_world\<lparr>env_SLACK_BOT_TOKEN := Some ''xoxb-1''\<rparr>"

text \<open>
  A Slack client whose first call settles last, with a response that is not \<^verbatim>\<open>ok\<close>.
\<close>

definition late_refusal_world :: "nat world" where
  "late_refusal_world =
     token_world
       \<lparr>chat_postMessage :=
          (\<lambda>i args. Inr (Some ((example_response args)\<lparr>resp_ok := (i \<noteq> 0)\<rparr>))),
        latency := (\<lambda>i. 5 - i)\<rparr>"

text \<open>An environment with a webhook URL only, and one in which the webhook refuses the request.\<close>

definition webhook_world :: "nat world" where
  "webhook_world =
     example_world\<lparr>env_SLACK_WEBHOOK_URL := Some ''https://hooks.slack.com/workflows/T0/A0''\<rparr>"

definition refused_webhook_world :: "nat world" where
  "refused_webhook_world =
     webhook_world
       \<lparr>axios_post :=
          (\<lambda>u body opts.
             Some \<lparr>err_response = Some \<lparr>response_data = JStr ''invalid_payload''\<rparr>,
                   err_message = ''Request failed with status code 400''\<rparr>)\<rparr>"

text \<open>A payload file that is empty, and one whose rendered text is not JSON.\<close>

definition empty_file_world :: "nat world" where
  "empty_file_world =
     token_world\<lparr>fs_readFile := (\<lambda>file. if file = ''payload.json'' then Some [] else None)\<rparr>"

definition template_world :: "nat world" where
  "template_world =
     token_world
       \<lparr>fs_readFile :=
          (\<lambda>file. if file = ''payload.json'' then Some ''{\"ref\": ${{github.ref}}}'' else None),
        markup_up :=
          (\<lambda>text. if text = ''{\"ref\": {{github.ref}}}''
                   then Some ''{\"ref\": refs/heads/main}'' else Some text)\<rparr>"

definition example_core :: core where
  "example_core =
     \<lparr>input_payload = [],
      input_payload_file_path = [],
      input_payload_file_path_parsed = Inr False,
      input_slack_message = [],
      input_channel_id = [],
      input_update_ts = []\<rparr>"

section \<open>Auxiliary facts\<close>

subsection \<open>Objects\<close>

lemma set_insert_index: "set (insert_index n kv obj) = insert kv (set obj)"
  by (induction obj) (auto split: option.splits)

lemma map_of_insert_index:
  "fst kv \<notin> fst ` set obj \<Longrightarrow> map_of (insert_index n kv obj) = (map_of obj)(fst kv \<mapsto> snd kv)"
proof (induction obj)
  case Nil
  show ?case by (cases kv) simp
next
  case (Cons e es)
  then have ne: "fst e \<noteq> fst kv" and rest: "fst kv \<notin> fst ` set es" by auto
  show ?case
  proof (cases "array_index (fst e)")
    case None
    then show ?thesis by (cases kv; cases e) (auto simp: fun_eq_iff)
  next
    case (Some m)
    show ?thesis
    proof (cases "m < n")
      case True
      with Some Cons.IH [OF rest] ne show ?thesis
        by (cases e) (auto simp: fun_eq_iff)
    next
      case False
      with Some show ?thesis by (cases kv; cases e) (auto simp: fun_eq_iff)
    qed
  qed
qed

lemma map_of_define_property: "map_of (define_property k v obj) = (map_of obj)(k \<mapsto> v)"
proof (cases "k \<in> set (map fst obj)")
  case True
  then show ?thesis by (simp add: define_property_def update_conv')
next
  case False
  then have "fst (k, v) \<notin> fst ` set obj" by simp
  note ins = map_of_insert_index [OF this]
  have none: "map_of obj k = None"
    using False by (simp add: map_of_eq_None_iff)
  show ?thesis
  proof (cases "array_index k")
    case None
    have "map_of (obj @ [(k, v)]) = (map_of obj)(k \<mapsto> v)"
      using none by (auto simp: fun_eq_iff map_add_def split: option.splits)
    with None False show ?thesis by (simp add: define_property_def)
  next
    case (Some n)
    with False ins [of n] show ?thesis by (simp add: define_property_def)
  qed
qed

lemma keys_define_property: "fst ` set (define_property k v obj) = insert k (fst ` set obj)"
  by (auto simp: define_property_def dom_update set_insert_index split: option.splits if_splits)









lemma map_of_foldl_define:
  "map_of (foldl (\<lambda>obj kv. define_property (fst kv) (snd kv) obj) acc props) =
     map_of acc ++ map_of (rev props)"
proof (induction props arbitrary: acc)
  case Nil
  show ?case by simp
next
  case (Cons kv props)
  show ?case
    by (simp add: Cons.IH map_of_define_property fun_eq_iff map_add_def
             split: option.splits)
qed

lemma map_of_object_literal: "map_of (object_literal props) = map_of (rev props)"
  by (simp add: object_literal_def map_of_foldl_define)

lemma map_of_chat_arguments:
  "map_of (chat_arguments w ts message payload ch) =
     (if ts \<noteq> [] then [''ts'' \<mapsto> JStr ts] else Map.empty) ++
     [''channel'' \<mapsto> JStr (trim ch), ''text'' \<mapsto> JStr message] ++
     map_of (rev (payload_fields w payload))"
  by (auto simp: chat_arguments_def map_of_object_literal fun_eq_iff map_add_def
           split: option.splits)

lemma length_split_on: "length (split_on d s) = Suc (count_list s d)"
  by (induction s) (auto split: list.splits)

lemma split_on_nonempty: "split_on d s \<noteq> []"
  by (induction s) (auto split: list.splits)

lemma split_on_chars:
  "seg \<in> set (split_on d s) \<Longrightarrow> set seg \<subseteq> set s - {d}"
proof (induction s arbitrary: seg)
  case Nil
  then show ?case by simp
next
  case (Cons c cs)
  show ?case
  proof (cases "c = d")
    case True
    with Cons show ?thesis by auto
  next
    case False
    obtain x xs where sp: "split_on d cs = x # xs"
      using split_on_nonempty [of d cs] by (cases "split_on d cs") auto
    with False Cons.prems have "seg = c # x \<or> seg \<in> set xs" by auto
    then show ?thesis
    proof
      assume "seg = c # x"
      moreover have "set x \<subseteq> set cs - {d}" using Cons.IH [of x] sp by simp
      ultimately show ?thesis using False by auto
    next
      assume "seg \<in> set xs"
      then have "set seg \<subseteq> set cs - {d}" using Cons.IH [of seg] sp by simp
      then show ?thesis by auto
    qed
  qed
qed

lemma trim_spaces: "\<forall>ch\<in>set s. is_space ch \<Longrightarrow> trim s = []"
proof -
  assume sp: "\<forall>ch\<in>set s. is_space ch"
  then have d: "dropWhile is_space s = []" by (induction s) auto
  show ?thesis unfolding trim_def d by simp
qed

lemma set_settle_order: "set (settle_order w rs) = set rs"
proof -
  have "set (settle_order w rs) = snd ` set (enumerate 0 rs)"
    by (simp add: settle_order_def)
  also have "\<dots> = set (map snd (enumerate 0 rs))" by (simp only: set_map)
  also have "\<dots> = set rs" by (simp only: map_snd_enumerate)
  finally show ?thesis .
qed

lemma length_settle_order: "length (settle_order w rs) = length rs"
  by (simp add: settle_order_def)

subsection \<open>The trace of an invocation\<close>

lemma load_events:
  assumes "load_payload_file w p flag = (evs, r)"
  shows "\<forall>e\<in>set evs. \<not> is_delivery e \<and> \<not> is_report e"
proof (cases "fs_readFile w (path_resolve w p)")
  case None
  with assms show ?thesis by (auto simp: load_payload_file_def)
next
  case (Some contents)
  with assms show ?thesis
    by (auto simp: load_payload_file_def Let_def split: if_splits option.splits)
qed

lemma parse_events:
  assumes "(case r0 of Inl e \<Rightarrow> (evs0, Inl e)
       | Inr contents \<Rightarrow>
          if contents \<noteq> [] then
            (case JSON_parse w contents of
               None \<Rightarrow> (evs0 @ [JsonParse contents], Inl InvalidPayloadError)
             | Some v \<Rightarrow> (evs0 @ [JsonParse contents], Inr (Some v)))
          else (evs0, Inr None)) = (evs, r)"
    and "\<forall>e\<in>set evs0. \<not> is_delivery e \<and> \<not> is_report e"
  shows "\<forall>e\<in>set evs. \<not> is_delivery e \<and> \<not> is_report e"
proof (cases r0)
  case (Inl e)
  with assms show ?thesis by simp
next
  case (Inr contents)
  show ?thesis
  proof (cases "contents = []")
    case True
    with Inr assms show ?thesis by simp
  next
    case False
    with Inr assms show ?thesis by (cases "JSON_parse w contents") auto
  qed
qed

lemma resolve_events:
  assumes "resolve_payload w c flag = (evs, r)"
  shows "\<forall>e\<in>set evs. \<not> is_delivery e \<and> \<not> is_report e"
proof (cases "input_payload_file_path c \<noteq> [] \<and> input_payload c = []")
  case True
  obtain evs0 r0 where l: "load_payload_file w (input_payload_file_path c) flag = (evs0, r0)"
    by (cases "load_payload_file w (input_payload_file_path c) flag")
  from assms show ?thesis
    unfolding resolve_payload_def Let_def if_P [OF True] l prod.case
    by (rule parse_events) (rule load_events [OF l])
next
  case False
  from assms show ?thesis
    unfolding resolve_payload_def Let_def if_not_P [OF False] prod.case
    by (rule parse_events) simp
qed

lemma response_outputs_reports: "\<forall>e\<in>set (response_outputs r). is_report e \<and> \<not> is_delivery e"
proof (cases r)
  case None
  then show ?thesis by (simp add: response_outputs_def)
next
  case (Some resp)
  then show ?thesis by (cases "resp_ok resp") (simp_all add: response_outputs_def)
qed

lemma chat_call_delivery: "is_delivery (chat_call ts args) \<and> \<not> is_report (chat_call ts args)"
  by (simp add: chat_call_def)

lemma fan_out_tail:
  "\<forall>e\<in>set (case first_rejection settled of
              Some e \<Rightarrow> [SetFailed (FailError e)]
            | None \<Rightarrow> response_outputs (last_response settled) @
                        [SetOutput ''time'' t]). \<not> is_delivery e"
  using response_outputs_reports [of "last_response settled"]
  by (cases "first_rejection settled") auto

lemma slackSend_resolved:
  assumes "\<not> missing (env_SLACK_BOT_TOKEN w) \<or> \<not> missing (env_SLACK_WEBHOOK_URL w)"
    and "input_payload_file_path_parsed c = Inr flag"
    and "resolve_payload w c flag = (evs, Inr payload)"
    and "dispatch w c payload = (evs', r)"
  shows "slackSend w c =
           evs @ evs' @ (case r of
                    Normal \<Rightarrow> [SetOutput ''time'' (toTimeString w)]
                  | Returned \<Rightarrow> []
                  | Thrown e \<Rightarrow> [SetFailed (FailError e)])"
proof -
  have creds: "(missing (env_SLACK_BOT_TOKEN w) \<and> missing (env_SLACK_WEBHOOK_URL w)) = False"
    using assms(1) by blast
  have body: "slackSend_body w c =
          (case r of Normal \<Rightarrow> (evs @ evs' @ [SetOutput ''time'' (toTimeString w)], Normal)
           | _ \<Rightarrow> (evs @ evs', r))"
    unfolding slackSend_body_def creds by (cases r) (simp_all add: assms(2-4))
  show ?thesis
    unfolding slackSend_def body by (cases r) simp_all
qed

lemma first_rejection_None: "first_rejection rs = None \<longleftrightarrow> (\<forall>r\<in>set rs. \<exists>x. r = Inr x)"
  by (induction rs rule: first_rejection.induct) auto

lemma fan_out_trace:
  assumes "\<not> missing (env_SLACK_BOT_TOKEN w)"
    and "input_payload_file_path_parsed c = Inr flag"
    and "resolve_payload w c flag = (evs, Inr payload)"
    and "input_channel_id c \<noteq> []"
    and "input_slack_message c \<noteq> [] \<or> payload_truthy w payload"
  shows "slackSend w c =
           evs @ web_client w (value_of (env_SLACK_BOT_TOKEN w)) #
           map (chat_call (input_update_ts c)) (channel_requests w c payload) @
           (case first_rejection (settled_results w c payload) of
              Some e \<Rightarrow> [SetFailed (FailError e)]
            | None \<Rightarrow> response_outputs (last_response (settled_results w c payload)) @
                        [SetOutput ''time'' (toTimeString w)])"
proof -
  let ?web = "web_client w (value_of (env_SLACK_BOT_TOKEN w))"
  let ?calls = "map (chat_call (input_update_ts c)) (channel_requests w c payload)"
  let ?settled = "settled_results w c payload"
  have d: "dispatch w c payload =
             (case first_rejection ?settled of
                Some e \<Rightarrow> ([?web] @ ?calls, Thrown e)
              | None \<Rightarrow> ([?web] @ ?calls @ response_outputs (last_response ?settled), Normal))"
    using assms(1,4,5) by (simp add: dispatch_def token_branch_def Let_def)
  show ?thesis
  proof (cases "first_rejection ?settled")
    case None
    with d have "dispatch w c payload =
        (?web # ?calls @ response_outputs (last_response ?settled), Normal)" by simp
    from slackSend_resolved [OF _ assms(2,3) this] assms(1) None show ?thesis by simp
  next
    case (Some e)
    with d have "dispatch w c payload = (?web # ?calls, Thrown e)" by simp
    from slackSend_resolved [OF _ assms(2,3) this] assms(1) Some show ?thesis by simp
  qed
qed

lemma token_branch_no_post:
  "AxiosPost url body opts \<notin> set (fst (token_branch w c botToken payload))"
proof -
  let ?calls = "map (chat_call (input_update_ts c)) (channel_requests w c payload)"
  have calls: "AxiosPost url body opts \<notin> set ?calls"
    by (auto simp: chat_call_def)
  have outs: "AxiosPost url body opts \<notin> set (response_outputs r)" for r
    using response_outputs_reports [of r] by fastforce
  show ?thesis
    using calls outs [of "last_response (settled_results w c payload)"]
    by (simp add: token_branch_def Let_def web_client_def split: option.splits)
qed

lemma webhook_branch_cases:
  "(\<exists>e. webhook_branch w t u p = ([], Thrown e)) \<or>
   (\<exists>body opts. axios_post w u body opts = None \<and>
       webhook_branch w t u p = ([AxiosPost u body opts], Normal)) \<or>
   (\<exists>body opts err. axios_post w u body opts = Some err \<and>
       webhook_branch w t u p =
         ([AxiosPost u body opts,
           SetFailed (case err_response err of
                        Some response \<Rightarrow> FailData (response_data response)
                      | None \<Rightarrow> FailMessage (err_message err))], Returned))"
  unfolding webhook_branch_def Let_def
  by (simp split: sum.splits option.splits)

lemma slackSend_unresolved:
  assumes "input_payload_file_path_parsed c = Inl e \<or>
           (\<exists>flag. input_payload_file_path_parsed c = Inr flag \<and>
                   resolve_payload w c flag = (evs, Inl e))"
    and "\<not> missing (env_SLACK_BOT_TOKEN w) \<or> \<not> missing (env_SLACK_WEBHOOK_URL w)"
  shows "\<exists>evs0. slackSend w c = evs0 @ [SetFailed (FailError e)] \<and>
                (\<forall>x\<in>set evs0. \<not> is_delivery x \<and> \<not> is_report x)"
proof -
  have creds: "(missing (env_SLACK_BOT_TOKEN w) \<and> missing (env_SLACK_WEBHOOK_URL w)) = False"
    using assms(2) by blast
  from assms(1) show ?thesis
  proof
    assume "input_payload_file_path_parsed c = Inl e"
    then have "slackSend w c = [] @ [SetFailed (FailError e)]"
      unfolding slackSend_def slackSend_body_def creds by simp
    then show ?thesis by (intro exI [of _ "[]"]) simp
  next
    assume "\<exists>flag. input_payload_file_path_parsed c = Inr flag \<and>
                   resolve_payload w c flag = (evs, Inl e)"
    then obtain flag where f: "input_payload_file_path_parsed c = Inr flag"
      and r: "resolve_payload w c flag = (evs, Inl e)" by blast
    have "slackSend w c = evs @ [SetFailed (FailError e)]"
      unfolding slackSend_def slackSend_body_def creds by (simp add: f r)
    with resolve_events [OF r] show ?thesis by blast
  qed
qed

lemma webhook_trace:
  assumes "missing (env_SLACK_BOT_TOKEN w)"
    and "\<not> missing (env_SLACK_WEBHOOK_URL w)"
    and "input_payload_file_path_parsed c = Inr flag"
    and "resolve_payload w c flag = (evs, Inr payload)"
  shows "slackSend w c =
           evs @
           (case shape_payload w (select_webhookType w) (payload_or_default w payload) of
              Inl e \<Rightarrow> [SetFailed (FailError e)]
            | Inr body \<Rightarrow>
                AxiosPost (value_of (env_SLACK_WEBHOOK_URL w)) body
                  (configure_axios w (value_of (env_SLACK_WEBHOOK_URL w))) #
                (case axios_post w (value_of (env_SLACK_WEBHOOK_URL w)) body
                        (configure_axios w (value_of (env_SLACK_WEBHOOK_URL w))) of
                   None \<Rightarrow> [SetOutput ''time'' (toTimeString w)]
                 | Some err \<Rightarrow>
                     [SetFailed (case err_response err of
                                   Some response \<Rightarrow> FailData (response_data response)
                                 | None \<Rightarrow> FailMessage (err_message err))]))"
proof -
  let ?u = "value_of (env_SLACK_WEBHOOK_URL w)"
  have d: "dispatch w c payload = webhook_branch w (select_webhookType w) ?u payload"
    using assms(1,2) by (simp add: dispatch_def)
  have creds: "\<not> missing (env_SLACK_BOT_TOKEN w) \<or> \<not> missing (env_SLACK_WEBHOOK_URL w)"
    using assms(2) by blast
  show ?thesis
  proof (cases "shape_payload w (select_webhookType w) (payload_or_default w payload)")
    case (Inl e)
    then have "dispatch w c payload = ([], Thrown e)"
      unfolding d webhook_branch_def Let_def by simp
    from slackSend_resolved [OF creds assms(3,4) this] Inl show ?thesis by simp
  next
    case (Inr body)
    show ?thesis
    proof (cases "axios_post w ?u body (configure_axios w ?u)")
      case None
      with Inr have "dispatch w c payload = ([AxiosPost ?u body (configure_axios w ?u)], Normal)"
        unfolding d webhook_branch_def Let_def by simp
      from slackSend_resolved [OF creds assms(3,4) this] Inr None show ?thesis by simp
    next
      case (Some err)
      with Inr have "dispatch w c payload =
          ([AxiosPost ?u body (configure_axios w ?u),
            SetFailed (case err_response err of
                         Some response \<Rightarrow> FailData (response_data response)
                       | None \<Rightarrow> FailMessage (err_message err))], Returned)"
        unfolding d webhook_branch_def Let_def by simp
      from slackSend_resolved [OF creds assms(3,4) this] Inr Some show ?thesis by simp
    qed
  qed
qed

lemma toUpperCase_Nil: "toUpperCase t = [] \<longleftrightarrow> t = []"
  by (simp add: toUpperCase_def)

lemma token_branch_no_parse:
  fixes w :: "'n world"
  shows "JsonParse t \<notin> set (fst (token_branch w c botToken payload))"
proof -
  let ?calls = "map (chat_call (input_update_ts c)) (channel_requests w c payload)"
  have calls: "JsonParse t \<notin> set ?calls"
    by (auto simp: chat_call_def)
  have outs: "(JsonParse t :: 'n event) \<notin> set (response_outputs r)" for r
    using response_outputs_reports [of r] by fastforce
  show ?thesis
    using calls outs [of "last_response (settled_results w c payload)"]
    by (simp add: token_branch_def Let_def web_client_def split: option.splits)
qed

lemma dispatch_no_parse: "JsonParse t \<notin> set (fst (dispatch w c payload))"
proof -
  have "JsonParse t \<notin> set (fst (webhook_branch w k u payload))" for k u
    using webhook_branch_cases [of w k u payload] by auto
  then show ?thesis by (simp add: dispatch_def token_branch_no_parse)
qed

lemma dispatch_file_path:
  "dispatch w (c\<lparr>input_payload_file_path := p\<rparr>) payload = dispatch w c payload"
  by (simp add: dispatch_def token_branch_def channel_requests_def settled_results_def Let_def)

subsection \<open>Leaves\<close>











subsection \<open>Flattening\<close>



















section \<open>Credentials\<close>

text \<open>
  C1. When the bot token and the webhook URL are both unset or empty, the invocation does
  one thing only: it reports the failure \<^verbatim>\<open>Need to provide at least one botToken or
  webhookUrl\<close>. No file is read, nothing is rendered or parsed, no request is sent.
\<close>

theorem no_credentials_fail_first:
  assumes "env_SLACK_BOT_TOKEN w = None \<or> env_SLACK_BOT_TOKEN w = Some []"
    and "env_SLACK_WEBHOOK_URL w = None \<or> env_SLACK_WEBHOOK_URL w = Some []"
  shows "slackSend w c =
           [SetFailed (FailError (Error ''Need to provide at least one botToken or webhookUrl''))]"
  using assms
  by (auto simp: slackSend_def slackSend_body_def missing_def ConfigurationError_def)

theorem no_credentials_fail_first_witness:
  "env_SLACK_BOT_TOKEN (example_world\<lparr>env_SLACK_BOT_TOKEN := Some []\<rparr>) = Some [] \<and>
   env_SLACK_WEBHOOK_URL (example_world\<lparr>env_SLACK_BOT_TOKEN := Some []\<rparr>) = None \<and>
   slackSend (example_world\<lparr>env_SLACK_BOT_TOKEN := Some []\<rparr>)
       (example_core\<lparr>input_payload := ''{\"text\":\"hi\"}'', input_channel_id := ''C1''\<rparr>) =
     [SetFailed (FailError (Error ''Need to provide at least one botToken or webhookUrl''))]"
  using no_credentials_fail_first
          [of "example_world\<lparr>env_SLACK_BOT_TOKEN := Some []\<rparr>"
              "example_core\<lparr>input_payload := ''{\"text\":\"hi\"}'', input_channel_id := ''C1''\<rparr>"]
  by (simp add: example_world_def)

section \<open>Payload resolution\<close>

text \<open>
  C4 (as amended). For a payload file read with the substitution flag set, the markers are
  rewritten and the text is rendered before anything is parsed. A rendered text that is
  not empty is then parsed: the invocation starts with the read, the rendering and the
  parsing, in this order, and when the rendered text is not valid JSON it ends there with
  the failure \<^verbatim>\<open>Need to provide valid JSON payload\<close>, not with the failure that names the
  path. A rendered text that is empty is not parsed: payload resolution ends without an
  error and without a payload, after the read and the rendering the invocation goes on as
  the one without a payload file does, and nothing is parsed in it.
\<close>

theorem rendered_file_parsed:
  fixes w :: "'n world"
  assumes "\<not> missing (env_SLACK_BOT_TOKEN w) \<or> \<not> missing (env_SLACK_WEBHOOK_URL w)"
    and "input_payload c = []"
    and "input_payload_file_path c \<noteq> []"
    and "input_payload_file_path_parsed c = Inr True"
    and "fs_readFile w (path_resolve w (input_payload_file_path c)) = Some contents"
    and "markup_up w (replaceAll_marker contents) = Some rendered"
  shows "(rendered \<noteq> [] \<longrightarrow>
            (\<exists>rest.
               slackSend w c =
                 [ReadFile (path_resolve w (input_payload_file_path c)),
                  MarkupUp (replaceAll_marker contents),
                  JsonParse rendered] @ rest \<and>
               (JSON_parse w rendered = None \<longrightarrow>
                  rest = [SetFailed (FailError (Error ''Need to provide valid JSON payload''))]))) \<and>
         (rendered = [] \<longrightarrow>
            resolve_payload w c True =
              ([ReadFile (path_resolve w (input_payload_file_path c)),
                MarkupUp (replaceAll_marker contents)], Inr None) \<and>
            slackSend w c =
              [ReadFile (path_resolve w (input_payload_file_path c)),
               MarkupUp (replaceAll_marker contents)] @
              slackSend w (c\<lparr>input_payload_file_path := []\<rparr>) \<and>
            (\<forall>t. JsonParse t \<notin> set (slackSend w c)))"
proof (intro conjI impI)
  let ?pre = "[ReadFile (path_resolve w (input_payload_file_path c)),
               MarkupUp (replaceAll_marker contents)]"
  let ?evs = "?pre @ [JsonParse rendered]"
  have load: "load_payload_file w (input_payload_file_path c) True = (?pre, Inr rendered)"
    using assms(5,6) by (simp add: load_payload_file_def Let_def)
  {
    assume ne: "rendered \<noteq> []"
    have res: "resolve_payload w c True =
                 (?evs, case JSON_parse w rendered of
                          None \<Rightarrow> Inl InvalidPayloadError
                        | Some v \<Rightarrow> Inr (Some v))"
      using assms(2,3) ne by (simp add: resolve_payload_def Let_def load split: option.splits)
    show "\<exists>rest.
               slackSend w c =
                 [ReadFile (path_resolve w (input_payload_file_path c)),
                  MarkupUp (replaceAll_marker contents),
                  JsonParse rendered] @ rest \<and>
               (JSON_parse w rendered = None \<longrightarrow>
                  rest = [SetFailed (FailError (Error ''Need to provide valid JSON payload''))])"
    proof (cases "JSON_parse w rendered")
      case None
      have creds: "(missing (env_SLACK_BOT_TOKEN w) \<and> missing (env_SLACK_WEBHOOK_URL w)) = False"
        using assms(1) by blast
      have "slackSend w c = ?evs @ [SetFailed (FailError InvalidPayloadError)]"
        unfolding slackSend_def slackSend_body_def creds
        by (simp add: assms(4) res None)
      then show ?thesis by (simp add: InvalidPayloadError_def)
    next
      case (Some v)
      obtain evs' r' where d: "dispatch w c (Some v) = (evs', r')"
        by (cases "dispatch w c (Some v)")
      from res Some have "resolve_payload w c True = (?evs, Inr (Some v))" by simp
      from slackSend_resolved [OF assms(1,4) this d] Some show ?thesis by simp
    qed
  }
  assume empty: "rendered = []"
  let ?c = "c\<lparr>input_payload_file_path := []\<rparr>"
  obtain evs' r' where d: "dispatch w c None = (evs', r')"
    by (cases "dispatch w c None")
  let ?tail = "case r' of
                 Normal \<Rightarrow> [SetOutput ''time'' (toTimeString w)]
               | Returned \<Rightarrow> []
               | Thrown e \<Rightarrow> [SetFailed (FailError e)]"
  show res: "resolve_payload w c True = (?pre, Inr None)"
    using assms(2,3) empty by (simp add: resolve_payload_def Let_def load)
  have res': "resolve_payload w ?c True = ([], Inr None)"
    using assms(2) by (simp add: resolve_payload_def)
  have d': "dispatch w ?c None = (evs', r')"
    by (simp only: dispatch_file_path d)
  have flag': "input_payload_file_path_parsed ?c = Inr True"
    using assms(4) by simp
  have whole: "slackSend w c = ?pre @ evs' @ ?tail"
    by (rule slackSend_resolved [OF assms(1,4) res d])
  have rest: "slackSend w ?c = [] @ evs' @ ?tail"
    by (rule slackSend_resolved [OF assms(1) flag' res' d'])
  from whole rest
  show "slackSend w c =
              [ReadFile (path_resolve w (input_payload_file_path c)),
               MarkupUp (replaceAll_marker contents)] @
              slackSend w (c\<lparr>input_payload_file_path := []\<rparr>)"
    by simp
  have "JsonParse t \<notin> set evs'" for t
    using dispatch_no_parse [of t w c None] d by simp
  moreover have "(JsonParse t :: 'n event) \<notin> set ?tail" for t by (cases r') simp_all
  ultimately show "\<forall>t. JsonParse t \<notin> set (slackSend w c)"
    unfolding whole by simp
qed

theorem rendered_file_parsed_witness:
  "slackSend template_world
     (example_core\<lparr>input_payload_file_path := ''payload.json'',
                    input_payload_file_path_parsed := Inr True,
                    input_slack_message := ''hello'', input_channel_id := ''C1''\<rparr>) =
     [ReadFile ''payload.json'',
      MarkupUp ''{\"ref\": {{github.ref}}}'',
      JsonParse ''{\"ref\": refs/heads/main}'',
      SetFailed (FailError (Error ''Need to provide valid JSON payload''))] \<and>
   slackSend empty_file_world
     (example_core\<lparr>input_payload_file_path := ''payload.json'',
                    input_payload_file_path_parsed := Inr True,
                    input_slack_message := ''hello'', input_channel_id := ''C1''\<rparr>) =
     [ReadFile ''payload.json'', MarkupUp [],
      CreateWebClient ''xoxb-1'' [],
      ChatPostMessage [(''channel'', JStr ''C1''), (''text'', JStr ''hello'')],
      SetOutput ''ts'' ''1700000000.000100'',
      SetOutput ''thread_ts'' ''1700000000.000100'',
      SetOutput ''channel_id'' ''C1'',
      SetOutput ''time'' ''12:00:00 GMT+0000 (Coordinated Universal Time)'']"
proof
  let ?c = "example_core\<lparr>input_payload_file_path := ''payload.json'',
                    input_payload_file_path_parsed := Inr True,
                    input_slack_message := ''hello'', input_channel_id := ''C1''\<rparr>"
  have 1: "\<not> missing (env_SLACK_BOT_TOKEN template_world) \<or>
           \<not> missing (env_SLACK_WEBHOOK_URL template_world)" by code_simp
  have 2: "input_payload ?c = []" by code_simp
  have 3: "input_payload_file_path ?c \<noteq> []" by code_simp
  have 4: "input_payload_file_path_parsed ?c = Inr True" by code_simp
  have 5: "fs_readFile template_world (path_resolve template_world (input_payload_file_path ?c)) =
             Some ''{\"ref\": ${{github.ref}}}''" by code_simp
  have 6: "markup_up template_world (replaceAll_marker ''{\"ref\": ${{github.ref}}}'') =
             Some ''{\"ref\": refs/heads/main}''" by code_simp
  have 7: "''{\"ref\": refs/heads/main}'' \<noteq> []" by simp
  have 8: "JSON_parse template_world ''{\"ref\": refs/heads/main}'' = None" by code_simp
  have 9: "path_resolve template_world (input_payload_file_path ?c) = ''payload.json''"
    by code_simp
  have 10: "replaceAll_marker ''{\"ref\": ${{github.ref}}}'' = ''{\"ref\": {{github.ref}}}''"
    by code_simp
  from rendered_file_parsed [OF 1 2 3 4 5 6, THEN conjunct1, rule_format, OF 7] 8
  show "slackSend template_world ?c =
     [ReadFile ''payload.json'',
      MarkupUp ''{\"ref\": {{github.ref}}}'',
      JsonParse ''{\"ref\": refs/heads/main}'',
      SetFailed (FailError (Error ''Need to provide valid JSON payload''))]"
    unfolding 9 10 by auto
  have e1: "\<not> missing (env_SLACK_BOT_TOKEN empty_file_world) \<or>
           \<not> missing (env_SLACK_WEBHOOK_URL empty_file_world)" by code_simp
  have e5: "fs_readFile empty_file_world (path_resolve empty_file_world (input_payload_file_path ?c)) =
             Some []" by code_simp
  have e6: "markup_up empty_file_world (replaceAll_marker []) = Some []" by code_simp
  have e9: "path_resolve empty_file_world (input_payload_file_path ?c) = ''payload.json''"
    by code_simp
  have e10: "replaceAll_marker [] = []" by code_simp
  have e11: "slackSend empty_file_world (?c\<lparr>input_payload_file_path := []\<rparr>) =
     [CreateWebClient ''xoxb-1'' [],
      ChatPostMessage [(''channel'', JStr ''C1''), (''text'', JStr ''hello'')],
      SetOutput ''ts'' ''1700000000.000100'',
      SetOutput ''thread_ts'' ''1700000000.000100'',
      SetOutput ''channel_id'' ''C1'',
      SetOutput ''time'' ''12:00:00 GMT+0000 (Coordinated Universal Time)'']"
    by code_simp
  from rendered_file_parsed [OF e1 2 3 4 e5 e6, THEN conjunct2, rule_format, OF refl,
      THEN conjunct2, THEN conjunct1]
  show "slackSend empty_file_world ?c =
     [ReadFile ''payload.json'', MarkupUp [],
      CreateWebClient ''xoxb-1'' [],
      ChatPostMessage [(''channel'', JStr ''C1''), (''text'', JStr ''hello'')],
      SetOutput ''ts'' ''1700000000.000100'',
      SetOutput ''thread_ts'' ''1700000000.000100'',
      SetOutput ''channel_id'' ''C1'',
      SetOutput ''time'' ''12:00:00 GMT+0000 (Coordinated Universal Time)'']"
    unfolding e9 e10 e11 by simp
qed

text \<open>
  C4 as the specification states it fails for a file whose rendered text is empty: the empty string is
  not valid JSON, but line 56 takes it for no payload, nothing is parsed and the message
  is sent without a payload.
\<close>

theorem rendered_file_parsed_counterexample:
  "input_payload_file_path_parsed
     (example_core\<lparr>input_payload_file_path := ''payload.json'',
                    input_payload_file_path_parsed := Inr True,
                    input_slack_message := ''hello'', input_channel_id := ''C1''\<rparr>) = Inr True \<and>
   fs_readFile empty_file_world (path_resolve empty_file_world ''payload.json'') = Some [] \<and>
   markup_up empty_file_world (replaceAll_marker []) = Some [] \<and>
   JSON_parse empty_file_world [] = None \<and>
   slackSend empty_file_world
     (example_core\<lparr>input_payload_file_path := ''payload.json'',
                    input_payload_file_path_parsed := Inr True,
                    input_slack_message := ''hello'', input_channel_id := ''C1''\<rparr>) =
     [ReadFile ''payload.json'', MarkupUp [],
      CreateWebClient ''xoxb-1'' [],
      ChatPostMessage [(''channel'', JStr ''C1''), (''text'', JStr ''hello'')],
      SetOutput ''ts'' ''1700000000.000100'',
      SetOutput ''thread_ts'' ''1700000000.000100'',
      SetOutput ''channel_id'' ''C1'',
      SetOutput ''time'' ''12:00:00 GMT+0000 (Coordinated Universal Time)'']"
  by code_simp

section \<open>The token transport\<close>

text \<open>
  The theorems of this section are about an invocation that reaches line 67 with a bot
  token: \<^verbatim>\<open>core.getBooleanInput\<close> has returned \<open>flag\<close> and the payload is resolved, with
  the events \<open>evs\<close>, to \<open>payload\<close> (\<open>None\<close> when there is none).
\<close>

text \<open>
  C6. With a bot token and an empty \<^verbatim>\<open>channel-id\<close> input, the invocation fails with the
  error of the empty channel list, whatever the message text and the payload are: the
  check stands before the check of the content. No request is sent.
\<close>

theorem empty_channel_fails:
  assumes "\<not> missing (env_SLACK_BOT_TOKEN w)"
    and "input_payload_file_path_parsed c = Inr flag"
    and "resolve_payload w c flag = (evs, Inr payload)"
    and "input_channel_id c = []"
  shows "slackSend w c =
           evs @ [web_client w (value_of (env_SLACK_BOT_TOKEN w)),
                  SetFailed (FailError EmptyChannelError)]"
proof -
  have "dispatch w c payload =
          ([web_client w (value_of (env_SLACK_BOT_TOKEN w))], Thrown EmptyChannelError)"
    using assms(1,4) by (simp add: dispatch_def token_branch_def)
  from slackSend_resolved [OF _ assms(2,3) this] assms(1) show ?thesis by simp
qed

theorem empty_channel_fails_witness:
  "slackSend token_world
     (example_core\<lparr>input_slack_message := ''hello'', input_payload := ''{\"text\":\"hi\"}''\<rparr>) =
     [JsonParse ''{\"text\":\"hi\"}'', CreateWebClient ''xoxb-1'' [],
      SetFailed (FailError (Error
        ''Channel ID is required to run this action. An empty one has been provided''))]"
proof -
  let ?c = "example_core\<lparr>input_slack_message := ''hello'', input_payload := ''{\"text\":\"hi\"}''\<rparr>"
  have 1: "\<not> missing (env_SLACK_BOT_TOKEN token_world)" by code_simp
  have 2: "input_payload_file_path_parsed ?c = Inr False" by code_simp
  have 3: "resolve_payload token_world ?c False =
             ([JsonParse ''{\"text\":\"hi\"}''], Inr (Some (JObj [(''text'', JStr ''hi'')])))"
    by code_simp
  have 4: "input_channel_id ?c = []" by code_simp
  have 5: "web_client token_world (value_of (env_SLACK_BOT_TOKEN token_world)) =
             CreateWebClient ''xoxb-1'' []" by code_simp
  from empty_channel_fails [OF 1 2 3 4] show ?thesis
    by (simp add: 5 EmptyChannelError_def)
qed

text \<open>
  C7. With a bot token and a non-empty \<^verbatim>\<open>channel-id\<close> input, an empty message text and a
  payload that is absent (or falsy) make the invocation fail with the error of the
  missing content. No request is sent.
\<close>

theorem empty_content_fails:
  assumes "\<not> missing (env_SLACK_BOT_TOKEN w)"
    and "input_payload_file_path_parsed c = Inr flag"
    and "resolve_payload w c flag = (evs, Inr payload)"
    and "input_channel_id c \<noteq> []"
    and "input_slack_message c = []"
    and "\<not> payload_truthy w payload"
  shows "slackSend w c =
           evs @ [web_client w (value_of (env_SLACK_BOT_TOKEN w)),
                  SetFailed (FailError EmptyContentError)]"
proof -
  have "dispatch w c payload =
          ([web_client w (value_of (env_SLACK_BOT_TOKEN w))], Thrown EmptyContentError)"
    using assms(1,4,5,6) by (simp add: dispatch_def token_branch_def)
  from slackSend_resolved [OF _ assms(2,3) this] assms(1) show ?thesis by simp
qed

theorem empty_content_fails_witness:
  "payload_truthy token_world None = False \<and>
   slackSend token_world (example_core\<lparr>input_channel_id := ''C1,C2''\<rparr>) =
     [CreateWebClient ''xoxb-1'' [],
      SetFailed (FailError (Error
        ''Missing message content, please input a valid payload or message to send. No Message has been send.''))]"
proof -
  let ?c = "example_core\<lparr>input_channel_id := ''C1,C2''\<rparr>"
  have 1: "\<not> missing (env_SLACK_BOT_TOKEN token_world)" by code_simp
  have 2: "input_payload_file_path_parsed ?c = Inr False" by code_simp
  have 3: "resolve_payload token_world ?c False = ([], Inr None)" by code_simp
  have 4: "input_channel_id ?c \<noteq> []" by code_simp
  have 5: "input_slack_message ?c = []" by code_simp
  have 6: "\<not> payload_truthy token_world None" by code_simp
  have 7: "web_client token_world (value_of (env_SLACK_BOT_TOKEN token_world)) =
             CreateWebClient ''xoxb-1'' []" by code_simp
  from empty_content_fails [OF 1 2 3 4 5 6] 6 show ?thesis
    by (simp add: 7 EmptyContentError_def)
qed

text \<open>
  C5 (as amended). With a bot token, a non-empty \<^verbatim>\<open>channel-id\<close> input and a message text
  or a truthy payload, one call is issued for each entry of the comma-separated input, in
  that order and before anything is reported: \<^verbatim>\<open>chat.update\<close> when \<^verbatim>\<open>update-ts\<close> is
  non-empty, \<^verbatim>\<open>chat.postMessage\<close> otherwise. The argument of a call maps \<^verbatim>\<open>ts\<close> (for an
  update), \<^verbatim>\<open>channel\<close> (the trimmed entry) and \<^verbatim>\<open>text\<close> (the message text), overridden by
  the fields of the payload: a payload field named \<^verbatim>\<open>channel\<close>, \<^verbatim>\<open>text\<close> or \<^verbatim>\<open>ts\<close> replaces
  the value of the input. (\<open>map_of (rev fields)\<close> gives a key its last value in \<open>fields\<close>;
  the keys of a parsed object are distinct.)
\<close>

theorem fan_out_requests:
  assumes "\<not> missing (env_SLACK_BOT_TOKEN w)"
    and "input_payload_file_path_parsed c = Inr flag"
    and "resolve_payload w c flag = (evs, Inr payload)"
    and "input_channel_id c \<noteq> []"
    and "input_slack_message c \<noteq> [] \<or> payload_truthy w payload"
  shows "(\<exists>rest.
            slackSend w c =
              evs @ web_client w (value_of (env_SLACK_BOT_TOKEN w)) #
              map (\<lambda>channelId.
                     (if input_update_ts c \<noteq> [] then ChatUpdate else ChatPostMessage)
                       (chat_arguments w (input_update_ts c) (input_slack_message c) payload
                          channelId))
                (split_on CHR '','' (input_channel_id c)) @
              rest \<and>
            (\<forall>e\<in>set rest. \<not> is_delivery e)) \<and>
         (\<forall>channelId.
            map_of (chat_arguments w (input_update_ts c) (input_slack_message c) payload channelId) =
              (if input_update_ts c \<noteq> [] then [''ts'' \<mapsto> JStr (input_update_ts c)] else Map.empty) ++
              [''channel'' \<mapsto> JStr (trim channelId), ''text'' \<mapsto> JStr (input_slack_message c)] ++
              map_of (rev (payload_fields w payload)))"
proof -
  have calls: "map (chat_call (input_update_ts c)) (channel_requests w c payload) =
          map (\<lambda>channelId.
                     (if input_update_ts c \<noteq> [] then ChatUpdate else ChatPostMessage)
                       (chat_arguments w (input_update_ts c) (input_slack_message c) payload
                          channelId))
                (split_on CHR '','' (input_channel_id c))"
    by (simp add: channel_requests_def chat_call_def)
  show ?thesis
    using fan_out_trace [OF assms] fan_out_tail [of "settled_results w c payload" "toTimeString w"]
    unfolding calls by (simp only: map_of_chat_arguments) blast
qed

theorem fan_out_requests_witness:
  "\<exists>rest.
     slackSend token_world
       (example_core\<lparr>input_channel_id := ''C1, C2'', input_payload := ''{\"text\":\"hi\"}''\<rparr>) =
       [JsonParse ''{\"text\":\"hi\"}'',
        CreateWebClient ''xoxb-1'' [],
        ChatPostMessage [(''channel'', JStr ''C1''), (''text'', JStr ''hi'')],
        ChatPostMessage [(''channel'', JStr ''C2''), (''text'', JStr ''hi'')]] @ rest \<and>
     (\<forall>e\<in>set rest. \<not> is_delivery e)"
proof -
  let ?c = "example_core\<lparr>input_channel_id := ''C1, C2'', input_payload := ''{\"text\":\"hi\"}''\<rparr>"
  let ?p = "Some (JObj [(''text'', JStr ''hi'')]) :: nat json option"
  have 1: "\<not> missing (env_SLACK_BOT_TOKEN token_world)" by code_simp
  have 2: "input_payload_file_path_parsed ?c = Inr False" by code_simp
  have 3: "resolve_payload token_world ?c False = ([JsonParse ''{\"text\":\"hi\"}''], Inr ?p)"
    by code_simp
  have 4: "input_channel_id ?c \<noteq> []" by code_simp
  have 5: "input_slack_message ?c \<noteq> [] \<or> payload_truthy token_world ?p" by code_simp
  have t: "[JsonParse ''{\"text\":\"hi\"}''] @
           web_client token_world (value_of (env_SLACK_BOT_TOKEN token_world)) #
           map (\<lambda>channelId.
                  (if input_update_ts ?c \<noteq> [] then ChatUpdate else ChatPostMessage)
                    (chat_arguments token_world (input_update_ts ?c) (input_slack_message ?c) ?p
                       channelId))
             (split_on CHR '','' (input_channel_id ?c)) =
       [JsonParse ''{\"text\":\"hi\"}'',
        CreateWebClient ''xoxb-1'' [],
        ChatPostMessage [(''channel'', JStr ''C1''), (''text'', JStr ''hi'')],
        ChatPostMessage [(''channel'', JStr ''C2''), (''text'', JStr ''hi'')]]"
    by code_simp
  from fan_out_requests [OF 1 2 3 4 5] show ?thesis
    unfolding t [symmetric] by simp
qed

text \<open>
  C5 as the specification states it fails: with the payload \<^verbatim>\<open>{"text":"hi"}\<close> and the message text
  \<^verbatim>\<open>hello\<close>, the call carries the text of the payload, not the message text.
\<close>

theorem fan_out_requests_counterexample:
  "slackSend token_world
     (example_core\<lparr>input_channel_id := ''C1'', input_slack_message := ''hello'',
                    input_payload := ''{\"text\":\"hi\"}''\<rparr>) =
     [JsonParse ''{\"text\":\"hi\"}'',
      CreateWebClient ''xoxb-1'' [],
      ChatPostMessage [(''channel'', JStr ''C1''), (''text'', JStr ''hi'')],
      SetOutput ''ts'' ''1700000000.000100'',
      SetOutput ''thread_ts'' ''1700000000.000100'',
      SetOutput ''channel_id'' ''C1'',
      SetOutput ''time'' ''12:00:00 GMT+0000 (Coordinated Universal Time)''] \<and>
   map_of [(''channel'', JStr ''C1''), (''text'', JStr ''hi'' :: nat json)] ''text'' \<noteq>
     Some (JStr ''hello'')"
  by code_simp

text \<open>
  C9. With a bot token, when every call resolves and the response recorded last is missing
  or not \<^verbatim>\<open>ok\<close>, the invocation sets no output but \<^verbatim>\<open>time\<close> and does not report a
  failure.
\<close>

theorem unusable_response_outputs:
  assumes "\<not> missing (env_SLACK_BOT_TOKEN w)"
    and "input_payload_file_path_parsed c = Inr flag"
    and "resolve_payload w c flag = (evs, Inr payload)"
    and "input_channel_id c \<noteq> []"
    and "input_slack_message c \<noteq> [] \<or> payload_truthy w payload"
    and "\<forall>r\<in>set (settled_results w c payload). \<exists>resp. r = Inr resp"
    and "last_response (settled_results w c payload) = None \<or>
         (\<exists>r. last_response (settled_results w c payload) = Some r \<and> \<not> resp_ok r)"
  shows "slackSend w c =
           evs @ web_client w (value_of (env_SLACK_BOT_TOKEN w)) #
           map (chat_call (input_update_ts c)) (channel_requests w c payload) @
           [SetOutput ''time'' (toTimeString w)] \<and>
         (\<forall>name v. SetOutput name v \<in> set (slackSend w c) \<longrightarrow> name = ''time'') \<and>
         (\<forall>f. SetFailed f \<notin> set (slackSend w c))"
proof -
  have none: "first_rejection (settled_results w c payload) = None"
    using assms(6) by (simp only: first_rejection_None)
  have outs: "response_outputs (last_response (settled_results w c payload)) = ([] :: 'a event list)"
    using assms(7) by (auto simp: response_outputs_def)
  have trace: "slackSend w c =
           evs @ web_client w (value_of (env_SLACK_BOT_TOKEN w)) #
           map (chat_call (input_update_ts c)) (channel_requests w c payload) @
           [SetOutput ''time'' (toTimeString w)]"
    by (simp add: fan_out_trace [OF assms(1-5)] none outs)
  have evs: "\<forall>e\<in>set evs. \<not> is_report e"
    using resolve_events [OF assms(3)] by blast
  have rep: "\<And>e. e \<in> set (slackSend w c) \<Longrightarrow> is_report e \<Longrightarrow>
               e = SetOutput ''time'' (toTimeString w)"
    unfolding trace using evs by (auto simp: web_client_def chat_call_delivery)
  have "\<And>name v. SetOutput name v \<in> set (slackSend w c) \<Longrightarrow> name = ''time''"
    using rep by fastforce
  moreover have "\<And>f. SetFailed f \<notin> set (slackSend w c)"
    using rep by fastforce
  ultimately show ?thesis using trace by blast
qed

theorem unusable_response_outputs_witness:
  "last_response
     (settled_results
        late_refusal_world
        (example_core\<lparr>input_channel_id := ''C1,C2'', input_slack_message := ''hello''\<rparr>) None) =
     Some \<lparr>resp_ok = False, resp_ts = ''1700000000.000100'', resp_thread_ts = None,
           resp_channel = ''C1''\<rparr> \<and>
   slackSend
     late_refusal_world
     (example_core\<lparr>input_channel_id := ''C1,C2'', input_slack_message := ''hello''\<rparr>) =
     [CreateWebClient ''xoxb-1'' [],
      ChatPostMessage [(''channel'', JStr ''C1''), (''text'', JStr ''hello'')],
      ChatPostMessage [(''channel'', JStr ''C2''), (''text'', JStr ''hello'')],
      SetOutput ''time'' ''12:00:00 GMT+0000 (Coordinated Universal Time)'']"
proof -
  let ?w = "late_refusal_world"
  let ?c = "example_core\<lparr>input_channel_id := ''C1,C2'', input_slack_message := ''hello''\<rparr>"
  let ?r1 = "\<lparr>resp_ok = False, resp_ts = ''1700000000.000100'', resp_thread_ts = None,
           resp_channel = ''C1''\<rparr>"
  let ?r2 = "\<lparr>resp_ok = True, resp_ts = ''1700000000.000100'', resp_thread_ts = None,
           resp_channel = ''C2''\<rparr>"
  have 1: "\<not> missing (env_SLACK_BOT_TOKEN ?w)" by code_simp
  have 2: "input_payload_file_path_parsed ?c = Inr False" by code_simp
  have 3: "resolve_payload ?w ?c False = ([], Inr None)" by code_simp
  have 4: "input_channel_id ?c \<noteq> []" by code_simp
  have 5: "input_slack_message ?c \<noteq> [] \<or> payload_truthy ?w None" by code_simp
  have s: "settled_results ?w ?c None = [Inr (Some ?r2), Inr (Some ?r1)]" by code_simp
  have 6: "\<forall>r\<in>set (settled_results ?w ?c None). \<exists>resp. r = Inr resp"
    unfolding s by simp
  have l: "last_response (settled_results ?w ?c None) = Some ?r1" by code_simp
  have 7: "last_response (settled_results ?w ?c None) = None \<or>
         (\<exists>r. last_response (settled_results ?w ?c None) = Some r \<and> \<not> resp_ok r)"
    unfolding l by simp
  have t: "[] @ web_client ?w (value_of (env_SLACK_BOT_TOKEN ?w)) #
           map (chat_call (input_update_ts ?c)) (channel_requests ?w ?c None) @
           [SetOutput ''time'' (toTimeString ?w)] =
     [CreateWebClient ''xoxb-1'' [],
      ChatPostMessage [(''channel'', JStr ''C1''), (''text'', JStr ''hello'')],
      ChatPostMessage [(''channel'', JStr ''C2''), (''text'', JStr ''hello'')],
      SetOutput ''time'' ''12:00:00 GMT+0000 (Coordinated Universal Time)'']"
    by code_simp
  from unusable_response_outputs [OF 1 2 3 4 5 6 7] l show ?thesis
    unfolding t by blast
qed

text \<open>
  C10 (as amended). The check of line 73 is on the length of the \<^verbatim>\<open>channel-id\<close> input
  itself. For a non-empty input made of commas and white space only, the invocation does
  not end in the error of the empty channel list, and every entry of the split input trims
  to the empty string. When there is a message text or a truthy payload, one call is
  issued for each entry (one more than there are commas), each with the empty string as
  \<^verbatim>\<open>channel\<close> before the fields of the payload are spread over it. When there is neither,
  no call is issued: the invocation ends in the error of the missing content.
\<close>

theorem blank_channels_fan_out:
  assumes "\<not> missing (env_SLACK_BOT_TOKEN w)"
    and "input_payload_file_path_parsed c = Inr flag"
    and "resolve_payload w c flag = (evs, Inr payload)"
    and "input_channel_id c \<noteq> []"
    and "\<forall>ch\<in>set (input_channel_id c). ch = CHR '','' \<or> is_space ch"
  shows "slackSend w c \<noteq>
           evs @ [web_client w (value_of (env_SLACK_BOT_TOKEN w)),
                  SetFailed (FailError EmptyChannelError)] \<and>
         (\<forall>seg\<in>set (split_on CHR '','' (input_channel_id c)). trim seg = []) \<and>
         (input_slack_message c \<noteq> [] \<or> payload_truthy w payload \<longrightarrow>
          (\<exists>rest.
             slackSend w c =
               evs @ web_client w (value_of (env_SLACK_BOT_TOKEN w)) #
               replicate (Suc (count_list (input_channel_id c) CHR '',''))
                 ((if input_update_ts c \<noteq> [] then ChatUpdate else ChatPostMessage)
                    (object_literal
                       ((if input_update_ts c \<noteq> [] then [(''ts'', JStr (input_update_ts c))] else []) @
                        [(''channel'', JStr []), (''text'', JStr (input_slack_message c))] @
                        payload_fields w payload))) @
               rest \<and>
             (\<forall>e\<in>set rest. \<not> is_delivery e))) \<and>
         (\<not> (input_slack_message c \<noteq> [] \<or> payload_truthy w payload) \<longrightarrow>
          slackSend w c =
            evs @ [web_client w (value_of (env_SLACK_BOT_TOKEN w)),
                   SetFailed (FailError EmptyContentError)])"
proof -
  let ?ts = "input_update_ts c"
  let ?segs = "split_on CHR '','' (input_channel_id c)"
  let ?web = "web_client w (value_of (env_SLACK_BOT_TOKEN w))"
  let ?op = "(if ?ts \<noteq> [] then ChatUpdate else ChatPostMessage)
                    (object_literal
                       ((if ?ts \<noteq> [] then [(''ts'', JStr ?ts)] else []) @
                        [(''channel'', JStr []), (''text'', JStr (input_slack_message c))] @
                        payload_fields w payload))"
  have blank: "\<forall>seg\<in>set ?segs. trim seg = []"
  proof
    fix seg assume "seg \<in> set ?segs"
    then have "set seg \<subseteq> set (input_channel_id c) - {CHR '',''}" by (rule split_on_chars)
    with assms(5) have "\<forall>ch\<in>set seg. is_space ch" by blast
    then show "trim seg = []" by (rule trim_spaces)
  qed
  have calls: "map (chat_call ?ts) (channel_requests w c payload) =
                 replicate (Suc (count_list (input_channel_id c) CHR '','')) ?op"
  proof -
    have "map (chat_call ?ts) (channel_requests w c payload) = map (\<lambda>seg. ?op) ?segs"
      unfolding channel_requests_def map_map
      by (rule map_cong) (simp_all add: chat_call_def chat_arguments_def blank)
    also have "\<dots> = replicate (length ?segs) ?op" by (simp only: map_replicate_const)
    finally show ?thesis by (simp only: length_split_on)
  qed
  have silent: "slackSend w c = evs @ [?web, SetFailed (FailError EmptyContentError)]"
    if "\<not> (input_slack_message c \<noteq> [] \<or> payload_truthy w payload)"
    using that assms(1,4) slackSend_resolved [OF _ assms(2,3),
        of "[?web]" "Thrown EmptyContentError"]
    by (simp add: dispatch_def token_branch_def)
  have not_empty_channel: "slackSend w c \<noteq> evs @ [?web, SetFailed (FailError EmptyChannelError)]"
  proof (cases "input_slack_message c \<noteq> [] \<or> payload_truthy w payload")
    case True
    have op: "?op \<noteq> SetFailed (FailError EmptyChannelError)" by simp
    from fan_out_trace [OF assms(1-4) True]
    obtain rest where "slackSend w c = evs @ ?web # ?op # rest"
      unfolding calls replicate.simps append_Cons by blast
    with op show ?thesis by simp
  next
    case False
    from silent [OF False] show ?thesis
      by (simp add: EmptyContentError_def EmptyChannelError_def)
  qed
  have issued: "\<exists>rest.
             slackSend w c =
               evs @ ?web # replicate (Suc (count_list (input_channel_id c) CHR '','')) ?op @ rest \<and>
             (\<forall>e\<in>set rest. \<not> is_delivery e)"
    if content: "input_slack_message c \<noteq> [] \<or> payload_truthy w payload"
    using fan_out_trace [OF assms(1-4) content]
      fan_out_tail [of "settled_results w c payload" "toTimeString w"]
    unfolding calls by blast
  from not_empty_channel blank issued silent show ?thesis by blast
qed

theorem blank_channels_fan_out_witness:
  "(\<exists>rest.
     slackSend token_world
       (example_core\<lparr>input_channel_id := '', ,'', input_slack_message := ''hello''\<rparr>) =
       [CreateWebClient ''xoxb-1'' [],
        ChatPostMessage [(''channel'', JStr []), (''text'', JStr ''hello'')],
        ChatPostMessage [(''channel'', JStr []), (''text'', JStr ''hello'')],
        ChatPostMessage [(''channel'', JStr []), (''text'', JStr ''hello'')]] @ rest \<and>
     (\<forall>e\<in>set rest. \<not> is_delivery e)) \<and>
   slackSend token_world (example_core\<lparr>input_channel_id := '',,''\<rparr>) =
     [CreateWebClient ''xoxb-1'' [],
      SetFailed (FailError (Error
        ''Missing message content, please input a valid payload or message to send. No Message has been send.''))]"
proof
  let ?c = "example_core\<lparr>input_channel_id := '', ,'', input_slack_message := ''hello''\<rparr>"
  let ?d = "example_core\<lparr>input_channel_id := '',,''\<rparr>"
  have 1: "\<not> missing (env_SLACK_BOT_TOKEN token_world)" by code_simp
  have 2: "input_payload_file_path_parsed ?c = Inr False" by code_simp
  have 3: "resolve_payload token_world ?c False = ([], Inr None)" by code_simp
  have 4: "input_channel_id ?c \<noteq> []" by code_simp
  have 5: "\<forall>ch\<in>set (input_channel_id ?c). ch = CHR '','' \<or> is_space ch" by code_simp
  have 6: "input_slack_message ?c \<noteq> [] \<or> payload_truthy token_world None" by code_simp
  have t: "[] @ web_client token_world (value_of (env_SLACK_BOT_TOKEN token_world)) #
               replicate (Suc (count_list (input_channel_id ?c) CHR '',''))
                 ((if input_update_ts ?c \<noteq> [] then ChatUpdate else ChatPostMessage)
                    (object_literal
                       ((if input_update_ts ?c \<noteq> [] then [(''ts'', JStr (input_update_ts ?c))] else []) @
                        [(''channel'', JStr []), (''text'', JStr (input_slack_message ?c))] @
                        payload_fields token_world None))) =
       [CreateWebClient ''xoxb-1'' [],
        ChatPostMessage [(''channel'', JStr []), (''text'', JStr ''hello'')],
        ChatPostMessage [(''channel'', JStr []), (''text'', JStr ''hello'')],
        ChatPostMessage [(''channel'', JStr []), (''text'', JStr ''hello'')]]"
    by code_simp
  from blank_channels_fan_out [OF 1 2 3 4 5, THEN conjunct2, THEN conjunct2, THEN conjunct1,
      rule_format, OF 6]
  show "\<exists>rest.
     slackSend token_world ?c =
       [CreateWebClient ''xoxb-1'' [],
        ChatPostMessage [(''channel'', JStr []), (''text'', JStr ''hello'')],
        ChatPostMessage [(''channel'', JStr []), (''text'', JStr ''hello'')],
        ChatPostMessage [(''channel'', JStr []), (''text'', JStr ''hello'')]] @ rest \<and>
     (\<forall>e\<in>set rest. \<not> is_delivery e)"
    unfolding t [symmetric] by simp
  have d2: "input_payload_file_path_parsed ?d = Inr False" by code_simp
  have d3: "resolve_payload token_world ?d False = ([], Inr None)" by code_simp
  have d4: "input_channel_id ?d \<noteq> []" by code_simp
  have d5: "\<forall>ch\<in>set (input_channel_id ?d). ch = CHR '','' \<or> is_space ch" by code_simp
  have d6: "\<not> (input_slack_message ?d \<noteq> [] \<or> payload_truthy token_world None)" by code_simp
  have d7: "web_client token_world (value_of (env_SLACK_BOT_TOKEN token_world)) =
             CreateWebClient ''xoxb-1'' []" by code_simp
  from blank_channels_fan_out [OF 1 d2 d3 d4 d5, THEN conjunct2, THEN conjunct2, THEN conjunct2,
      rule_format, OF d6]
  show "slackSend token_world ?d =
     [CreateWebClient ''xoxb-1'' [],
      SetFailed (FailError (Error
        ''Missing message content, please input a valid payload or message to send. No Message has been send.''))]"
    by (simp add: d7 EmptyContentError_def)
qed

text \<open>
  C10 as the specification states it fails for the input \<^verbatim>\<open>,\<close> with no message text and
  no payload: the input splits into two entries and the error of the empty channel list
  is not raised, but no call is issued for them; the invocation ends in the error of the
  missing content.
\<close>

theorem blank_channels_fan_out_counterexample:
  "split_on CHR '','' (input_channel_id (example_core\<lparr>input_channel_id := '',''\<rparr>)) = [[], []] \<and>
   slackSend token_world (example_core\<lparr>input_channel_id := '',''\<rparr>) =
     [CreateWebClient ''xoxb-1'' [],
      SetFailed (FailError (Error
        ''Missing message content, please input a valid payload or message to send. No Message has been send.''))]"
  by code_simp

section \<open>The webhook transport\<close>

text \<open>
  C3. Whenever the request to the webhook is sent and fails, the invocation ends with the
  report of that failure, right after the request: the body of the HTTP response when the
  failure has a response, the message of the failure otherwise. Nothing was reported
  before, so the \<^verbatim>\<open>time\<close> output is not set on this path.
\<close>

theorem webhook_failure_reported:
  assumes post: "AxiosPost url body opts \<in> set (slackSend w c)"
    and fail: "axios_post w url body opts = Some err"
  shows "\<exists>evs.
           slackSend w c =
             evs @ [AxiosPost url body opts,
                    SetFailed (case err_response err of
                                 Some response \<Rightarrow> FailData (response_data response)
                               | None \<Rightarrow> FailMessage (err_message err))] \<and>
           (\<forall>e\<in>set evs. \<not> is_report e)"
proof -
  let ?P = "AxiosPost url body opts"
  have creds: "\<not> missing (env_SLACK_BOT_TOKEN w) \<or> \<not> missing (env_SLACK_WEBHOOK_URL w)"
  proof (rule ccontr)
    assume "\<not> ?thesis"
    then have "slackSend w c = [SetFailed (FailError ConfigurationError)]"
      by (simp add: slackSend_def slackSend_body_def)
    with post show False by simp
  qed
  obtain flag where flag: "input_payload_file_path_parsed c = Inr flag"
  proof (cases "input_payload_file_path_parsed c")
    case (Inl e)
    with slackSend_unresolved [of c e w "[]"] creds post show ?thesis by fastforce
  next
    case (Inr flag)
    with that show ?thesis .
  qed
  obtain evs r where res: "resolve_payload w c flag = (evs, r)"
    by (cases "resolve_payload w c flag")
  obtain payload where r: "r = Inr payload"
  proof (cases r)
    case (Inl e)
    with slackSend_unresolved [of c e w evs] creds post flag res show ?thesis by fastforce
  next
    case (Inr payload)
    with that show ?thesis .
  qed
  note res = res [unfolded r]
  have evs: "\<forall>e\<in>set evs. \<not> is_delivery e \<and> \<not> is_report e"
    by (rule resolve_events [OF res])
  obtain evs' r' where d: "dispatch w c payload = (evs', r')"
    by (cases "dispatch w c payload")
  note trace = slackSend_resolved [OF creds flag res d]
  have in_evs': "?P \<in> set evs'"
    using post evs unfolding trace by (cases r') auto
  have not_token: "missing (env_SLACK_BOT_TOKEN w)"
  proof (rule ccontr)
    assume "\<not> ?thesis"
    then have "evs' = fst (token_branch w c (value_of (env_SLACK_BOT_TOKEN w)) payload)"
      using d by (simp add: dispatch_def)
    with in_evs' token_branch_no_post show False by metis
  qed
  have webhook: "\<not> missing (env_SLACK_WEBHOOK_URL w)"
    using creds not_token by blast
  let ?u = "value_of (env_SLACK_WEBHOOK_URL w)"
  have d': "webhook_branch w (select_webhookType w) ?u payload = (evs', r')"
    using d not_token webhook by (simp add: dispatch_def)
  from webhook_branch_cases [of w "select_webhookType w" ?u payload]
  show ?thesis
  proof (elim disjE exE conjE)
    fix e assume "webhook_branch w (select_webhookType w) ?u payload = ([], Thrown e)"
    with d' in_evs' show ?thesis by simp
  next
    fix body' opts'
    assume ok: "axios_post w ?u body' opts' = None"
      and "webhook_branch w (select_webhookType w) ?u payload = ([AxiosPost ?u body' opts'], Normal)"
    with d' in_evs' have "url = ?u \<and> body = body' \<and> opts = opts'" by auto
    with ok fail show ?thesis by simp
  next
    fix body' opts' err'
    assume ko: "axios_post w ?u body' opts' = Some err'"
      and b: "webhook_branch w (select_webhookType w) ?u payload =
         ([AxiosPost ?u body' opts',
           SetFailed (case err_response err' of
                        Some response \<Rightarrow> FailData (response_data response)
                      | None \<Rightarrow> FailMessage (err_message err'))], Returned)"
    from b d' in_evs' have same: "url = ?u \<and> body = body' \<and> opts = opts'" by auto
    with ko fail have err: "err' = err" by simp
    from b d' have "slackSend w c =
        evs @ [AxiosPost ?u body' opts',
           SetFailed (case err_response err' of
                        Some response \<Rightarrow> FailData (response_data response)
                      | None \<Rightarrow> FailMessage (err_message err'))]"
      unfolding trace by auto
    with same err evs show ?thesis by blast
  qed
qed

theorem webhook_failure_reported_witness:
  "\<exists>evs.
     slackSend refused_webhook_world example_core =
       evs @ [AxiosPost ''https://hooks.slack.com/workflows/T0/A0''
                (JObj [(''ref'', JStr ''main'')]) \<lparr>httpsAgent = None, proxy_false = False\<rparr>,
              SetFailed (FailData (JStr ''invalid_payload''))] \<and>
     (\<forall>e\<in>set evs. \<not> is_report e)"
proof -
  let ?url = "''https://hooks.slack.com/workflows/T0/A0''"
  let ?body = "JObj [(''ref'', JStr ''main'')] :: nat json"
  let ?opts = "\<lparr>httpsAgent = None, proxy_false = False\<rparr>"
  let ?err = "\<lparr>err_response = Some \<lparr>response_data = JStr ''invalid_payload'' :: nat json\<rparr>,
               err_message = ''Request failed with status code 400''\<rparr>"
  have 1: "AxiosPost ?url ?body ?opts \<in> set (slackSend refused_webhook_world example_core)"
    by code_simp
  have 2: "axios_post refused_webhook_world ?url ?body ?opts = Some ?err"
    by code_simp
  from webhook_failure_reported [OF 1 2] show ?thesis by simp
qed



text \<open>
  C8 (as amended). The webhook type is \<^verbatim>\<open>WORKFLOW_TRIGGER\<close> when the override is unset or
  empty, and the upper-cased override otherwise, whatever it is: two overrides that
  differ in letter case only select the same type, and nothing checks that the type is
  one of the two names. With a webhook URL and no token, the payload is flattened exactly
  when the type is \<^verbatim>\<open>WORKFLOW_TRIGGER\<close>; for every other type, \<^verbatim>\<open>INCOMING_WEBHOOK\<close> or
  not, the payload is posted as it is.
\<close>

theorem webhook_kind_selection:
  assumes "missing (env_SLACK_BOT_TOKEN w)"
    and "\<not> missing (env_SLACK_WEBHOOK_URL w)"
    and "input_payload_file_path_parsed c = Inr flag"
    and "resolve_payload w c flag = (evs, Inr payload)"
  shows "(env_SLACK_WEBHOOK_TYPE w = None \<or> env_SLACK_WEBHOOK_TYPE w = Some [] \<longrightarrow>
            select_webhookType w = ''WORKFLOW_TRIGGER'') \<and>
         (\<forall>t. env_SLACK_WEBHOOK_TYPE w = Some t \<and> t \<noteq> [] \<longrightarrow>
            select_webhookType w = toUpperCase t) \<and>
         (\<forall>t t'. toUpperCase t = toUpperCase t' \<longrightarrow>
            select_webhookType (w\<lparr>env_SLACK_WEBHOOK_TYPE := Some t\<rparr>) =
            select_webhookType (w\<lparr>env_SLACK_WEBHOOK_TYPE := Some t'\<rparr>)) \<and>
         (select_webhookType w \<noteq> ''WORKFLOW_TRIGGER'' \<longrightarrow>
            (\<exists>rest. slackSend w c =
               evs @ AxiosPost (value_of (env_SLACK_WEBHOOK_URL w))
                       (payload_or_default w payload)
                       (configure_axios w (value_of (env_SLACK_WEBHOOK_URL w))) # rest)) \<and>
         (select_webhookType w = ''WORKFLOW_TRIGGER'' \<longrightarrow>
            (case flatten (payload_or_default w payload) of
               Inl e \<Rightarrow> slackSend w c = evs @ [SetFailed (FailError e)]
             | Inr flatPayload \<Rightarrow>
                 (\<exists>rest. slackSend w c =
                    evs @ AxiosPost (value_of (env_SLACK_WEBHOOK_URL w))
                            (JObj (stringify_values w flatPayload))
                            (configure_axios w (value_of (env_SLACK_WEBHOOK_URL w))) # rest)))"
proof -
  note trace = webhook_trace [OF assms]
  have default: "env_SLACK_WEBHOOK_TYPE w = None \<or> env_SLACK_WEBHOOK_TYPE w = Some [] \<longrightarrow>
            select_webhookType w = ''WORKFLOW_TRIGGER''"
    by (auto simp: select_webhookType_def SLACK_WEBHOOK_TYPES_WORKFLOW_TRIGGER_def)
  have upper: "\<forall>t. env_SLACK_WEBHOOK_TYPE w = Some t \<and> t \<noteq> [] \<longrightarrow>
            select_webhookType w = toUpperCase t"
    by (simp add: select_webhookType_def)
  have insensitive: "\<forall>t t'. toUpperCase t = toUpperCase t' \<longrightarrow>
            select_webhookType (w\<lparr>env_SLACK_WEBHOOK_TYPE := Some t\<rparr>) =
            select_webhookType (w\<lparr>env_SLACK_WEBHOOK_TYPE := Some t'\<rparr>)"
  proof (intro allI impI)
    fix t t' :: string
    assume eq: "toUpperCase t = toUpperCase t'"
    then have "t = [] \<longleftrightarrow> t' = []" by (metis toUpperCase_Nil)
    with eq show "select_webhookType (w\<lparr>env_SLACK_WEBHOOK_TYPE := Some t\<rparr>) =
            select_webhookType (w\<lparr>env_SLACK_WEBHOOK_TYPE := Some t'\<rparr>)"
      by (simp add: select_webhookType_def)
  qed
  have through: "select_webhookType w \<noteq> ''WORKFLOW_TRIGGER'' \<longrightarrow>
            (\<exists>rest. slackSend w c =
               evs @ AxiosPost (value_of (env_SLACK_WEBHOOK_URL w))
                       (payload_or_default w payload)
                       (configure_axios w (value_of (env_SLACK_WEBHOOK_URL w))) # rest)"
  proof
    assume "select_webhookType w \<noteq> ''WORKFLOW_TRIGGER''"
    then have "shape_payload w (select_webhookType w) (payload_or_default w payload) =
                 Inr (payload_or_default w payload)"
      by (simp add: shape_payload_def SLACK_WEBHOOK_TYPES_WORKFLOW_TRIGGER_def)
    with trace show "\<exists>rest. slackSend w c =
               evs @ AxiosPost (value_of (env_SLACK_WEBHOOK_URL w))
                       (payload_or_default w payload)
                       (configure_axios w (value_of (env_SLACK_WEBHOOK_URL w))) # rest"
      by simp
  qed
  have flat: "select_webhookType w = ''WORKFLOW_TRIGGER'' \<longrightarrow>
            (case flatten (payload_or_default w payload) of
               Inl e \<Rightarrow> slackSend w c = evs @ [SetFailed (FailError e)]
             | Inr flatPayload \<Rightarrow>
                 (\<exists>rest. slackSend w c =
                    evs @ AxiosPost (value_of (env_SLACK_WEBHOOK_URL w))
                            (JObj (stringify_values w flatPayload))
                            (configure_axios w (value_of (env_SLACK_WEBHOOK_URL w))) # rest))"
  proof
    assume k: "select_webhookType w = ''WORKFLOW_TRIGGER''"
    show "case flatten (payload_or_default w payload) of
               Inl e \<Rightarrow> slackSend w c = evs @ [SetFailed (FailError e)]
             | Inr flatPayload \<Rightarrow>
                 (\<exists>rest. slackSend w c =
                    evs @ AxiosPost (value_of (env_SLACK_WEBHOOK_URL w))
                            (JObj (stringify_values w flatPayload))
                            (configure_axios w (value_of (env_SLACK_WEBHOOK_URL w))) # rest)"
    proof (cases "flatten (payload_or_default w payload)")
      case (Inl e)
      then have "shape_payload w (select_webhookType w) (payload_or_default w payload) = Inl e"
        by (simp add: shape_payload_def k SLACK_WEBHOOK_TYPES_WORKFLOW_TRIGGER_def)
      with trace Inl show ?thesis by simp
    next
      case (Inr flatPayload)
      then have "shape_payload w (select_webhookType w) (payload_or_default w payload) =
                   Inr (JObj (stringify_values w flatPayload))"
        by (simp add: shape_payload_def k SLACK_WEBHOOK_TYPES_WORKFLOW_TRIGGER_def)
      with trace Inr show ?thesis by simp
    qed
  qed
  from default upper insensitive through flat show ?thesis by blast
qed

theorem webhook_kind_selection_witness:
  "select_webhookType (webhook_world\<lparr>env_SLACK_WEBHOOK_TYPE := Some ''Incoming_Webhook''\<rparr>) =
     ''INCOMING_WEBHOOK'' \<and>
   (\<exists>rest.
      slackSend (webhook_world\<lparr>env_SLACK_WEBHOOK_TYPE := Some ''Incoming_Webhook''\<rparr>)
        (example_core\<lparr>input_payload := ''{\"a\":{\"b\":1,\"c\":[2,3]}}''\<rparr>) =
        [JsonParse ''{\"a\":{\"b\":1,\"c\":[2,3]}}''] @
        AxiosPost ''https://hooks.slack.com/workflows/T0/A0''
          (JObj [(''a'', JObj [(''b'', JNum 1), (''c'', JArr [JNum 2, JNum 3])])])
          \<lparr>httpsAgent = None, proxy_false = False\<rparr> # rest)"
proof -
  let ?w = "webhook_world\<lparr>env_SLACK_WEBHOOK_TYPE := Some ''Incoming_Webhook''\<rparr>"
  let ?c = "example_core\<lparr>input_payload := ''{\"a\":{\"b\":1,\"c\":[2,3]}}''\<rparr>"
  let ?p = "JObj [(''a'', JObj [(''b'', JNum 1), (''c'', JArr [JNum 2, JNum 3])])] :: nat json"
  have 1: "missing (env_SLACK_BOT_TOKEN ?w)" by code_simp
  have 2: "\<not> missing (env_SLACK_WEBHOOK_URL ?w)" by code_simp
  have 3: "input_payload_file_path_parsed ?c = Inr False" by code_simp
  have 4: "resolve_payload ?w ?c False =
             ([JsonParse ''{\"a\":{\"b\":1,\"c\":[2,3]}}''], Inr (Some ?p))" by code_simp
  have 5: "env_SLACK_WEBHOOK_TYPE ?w = Some ''Incoming_Webhook'' \<and> ''Incoming_Webhook'' \<noteq> []"
    by simp
  have 6: "toUpperCase ''Incoming_Webhook'' = ''INCOMING_WEBHOOK''" by code_simp
  have 7: "''INCOMING_WEBHOOK'' \<noteq> ''WORKFLOW_TRIGGER''" by simp
  have 8: "value_of (env_SLACK_WEBHOOK_URL ?w) = ''https://hooks.slack.com/workflows/T0/A0''"
    by code_simp
  have 9: "payload_or_default ?w (Some ?p) = ?p" by code_simp
  have 10: "configure_axios ?w ''https://hooks.slack.com/workflows/T0/A0'' =
              \<lparr>httpsAgent = None, proxy_false = False\<rparr>" by code_simp
  note k = webhook_kind_selection [OF 1 2 3 4]
  note upper = k [THEN conjunct2, THEN conjunct1, rule_format, OF 5]
  note through = k [THEN conjunct2, THEN conjunct2, THEN conjunct2, THEN conjunct1, rule_format]
  have sel: "select_webhookType ?w = ''INCOMING_WEBHOOK''"
    using upper unfolding 6 .
  have "select_webhookType ?w \<noteq> ''WORKFLOW_TRIGGER''"
    unfolding sel by (rule 7)
  from through [OF this] sel show ?thesis unfolding 8 9 10 by simp
qed

text \<open>
  C8 as the specification states it fails: the override \<^verbatim>\<open>foo\<close> selects the type \<^verbatim>\<open>FOO\<close>, which is
  neither of the two variants; the payload is posted unflattened.
\<close>

theorem webhook_kind_selection_counterexample:
  "select_webhookType (webhook_world\<lparr>env_SLACK_WEBHOOK_TYPE := Some ''foo''\<rparr>) = ''FOO'' \<and>
   ''FOO'' \<noteq> SLACK_WEBHOOK_TYPES_WORKFLOW_TRIGGER \<and>
   ''FOO'' \<noteq> SLACK_WEBHOOK_TYPES_INCOMING_WEBHOOK \<and>
   slackSend (webhook_world\<lparr>env_SLACK_WEBHOOK_TYPE := Some ''foo''\<rparr>)
     (example_core\<lparr>input_payload := ''{\"a\":{\"b\":1,\"c\":[2,3]}}''\<rparr>) =
     [JsonParse ''{\"a\":{\"b\":1,\"c\":[2,3]}}'',
      AxiosPost ''https://hooks.slack.com/workflows/T0/A0''
        (JObj [(''a'', JObj [(''b'', JNum 1), (''c'', JArr [JNum 2, JNum 3])])])
        \<lparr>httpsAgent = None, proxy_false = False\<rparr>,
      SetOutput ''time'' ''12:00:00 GMT+0000 (Coordinated Universal Time)'']"
  by code_simp

end

